theory Spec2Isabelle
  imports Main "HOL-Library.Sublist"
begin

section \<open>Values of the program\<close>

text \<open>
  A Go \<^verbatim>\<open>error\<close> value carries a message and, when it was built by
  \<^verbatim>\<open>fmt.Errorf\<close> with the verb \<^verbatim>\<open>%w\<close>, the error it wraps. The Go value
  \<^verbatim>\<open>nil\<close> of type \<^verbatim>\<open>error\<close> is \<open>None\<close> of type \<open>error option\<close>.
\<close>

datatype error = Error (message: string) (cause: "error option")

text \<open>\<^verbatim>\<open>fmt.Errorf(prefix + "%w", e)\<close> for a non-nil \<open>e\<close>.\<close>

definition wrap :: "string \<Rightarrow> error \<Rightarrow> error" where
  "wrap msg e = Error (msg @ message e) (Some e)"

record DBConfig =
  Host :: string
  Port :: string
  User :: string
  Password :: string
  DBName :: string

text \<open>
  An external process as \<^verbatim>\<open>exec.Command(name, args...)\<close> builds it: the program,
  its arguments, and the entries the code appends to the inherited environment
  (\<^verbatim>\<open>cmd.Env = append(os.Environ(), ...)\<close>).
\<close>

record command =
  name :: string
  args :: "string list"
  env :: "string list"

definition Command :: "string \<Rightarrow> string list \<Rightarrow> command" where
  "Command n as = \<lparr>name = n, args = as, env = []\<rparr>"

section \<open>The world outside the program\<close>

text \<open>
  Every action of the program on its surroundings is recorded, in order, in the
  \<open>trace\<close> of the world; this is the instrumented call sequence a test harness
  would observe. Calls to \<^verbatim>\<open>log.Printf\<close> and to the progress monitor only
  write to the process log and never feed back into control flow; they are not
  part of the model.
\<close>

datatype event =
    Exec command
  | Sleep int
  | ReadFile string
  | WriteFile string string
  | MkdirAll string

text \<open>
  The world answers deterministically, but arbitrarily:
  \<^item> \<open>proc w n c\<close> is the combined output and the error of the \<open>n\<close>-th external
    process the program starts, when that process is \<open>c\<close>; \<open>started\<close> counts the
    processes started so far;
  \<^item> \<open>files w p\<close> is what \<^verbatim>\<open>os.ReadFile(p)\<close> returns now: the content of the
    file, or the error of the read;
  \<^item> \<open>write_err w p\<close> is the error of \<^verbatim>\<open>os.WriteFile(p, ...)\<close>, \<open>None\<close> when
    the path can be written; a refused write leaves the file as it was;
  \<^item> \<open>mkdir_err w p\<close> is the error of \<^verbatim>\<open>os.MkdirAll(p, 0755)\<close>;
  \<^item> \<open>numCPU w\<close> is the number of processing units of the host, the value of
    \<^verbatim>\<open>runtime.NumCPU()\<close>.
\<close>

record world =
  proc :: "nat \<Rightarrow> command \<Rightarrow> string \<times> error option"
  started :: nat
  files :: "string \<Rightarrow> error + string"
  write_err :: "string \<Rightarrow> error option"
  mkdir_err :: "string \<Rightarrow> error option"
  numCPU :: int
  trace :: "event list"

text \<open>\<^verbatim>\<open>cmd.CombinedOutput()\<close>: start the process and wait for it.\<close>

definition CombinedOutput :: "command \<Rightarrow> world \<Rightarrow> (string \<times> error option) \<times> world" where
  "CombinedOutput c w =
     (proc w (started w) c, w\<lparr>started := Suc (started w), trace := trace w @ [Exec c]\<rparr>)"

text \<open>\<^verbatim>\<open>time.Sleep(time.Duration(n) * time.Second)\<close>.\<close>

definition time_Sleep :: "int \<Rightarrow> world \<Rightarrow> world" where
  "time_Sleep n w = w\<lparr>trace := trace w @ [Sleep n]\<rparr>"

definition os_ReadFile :: "string \<Rightarrow> world \<Rightarrow> (error + string) \<times> world" where
  "os_ReadFile p w = (files w p, w\<lparr>trace := trace w @ [ReadFile p]\<rparr>)"

definition os_WriteFile :: "string \<Rightarrow> string \<Rightarrow> world \<Rightarrow> error option \<times> world" where
  "os_WriteFile p d w =
     (case write_err w p of
        Some e \<Rightarrow> (Some e, w\<lparr>trace := trace w @ [WriteFile p d]\<rparr>)
      | None \<Rightarrow> (None, w\<lparr>files := (files w)(p := Inr d), trace := trace w @ [WriteFile p d]\<rparr>))"

definition os_MkdirAll :: "string \<Rightarrow> world \<Rightarrow> error option \<times> world" where
  "os_MkdirAll p w = (mkdir_err w p, w\<lparr>trace := trace w @ [MkdirAll p]\<rparr>)"

section \<open>Formatting\<close>

text \<open>The verb \<^verbatim>\<open>%d\<close> of \<^verbatim>\<open>fmt.Sprintf\<close>: a Go \<^verbatim>\<open>int\<close> in decimal.\<close>

function show_nat :: "nat \<Rightarrow> string" where
  "show_nat n =
     (if n < 10 then [''0123456789'' ! n]
      else show_nat (n div 10) @ [''0123456789'' ! (n mod 10)])"
  by pat_completeness auto
termination
  by (relation "measure id") auto

definition show_int :: "int \<Rightarrow> string" where
  "show_int i = (if i < 0 then ''-'' @ show_nat (nat (- i)) else show_nat (nat i))"

section \<open>File paths\<close>

text \<open>
  \<^verbatim>\<open>filepath.Join\<close> of the Go library on a system whose separator is \<open>/\<close>:
  the elements from the first non-empty one on are joined with the separator,
  and the result is cleaned. \<^verbatim>\<open>filepath.Clean\<close> works on the elements between the
  separators: it drops empty elements and \<open>.\<close>, lets \<open>..\<close> remove the element
  before it (a \<open>..\<close> that has nothing to remove stays at the front of a relative
  path and disappears from a rooted one), and writes \<open>.\<close> for an empty result.
\<close>

fun strings_Join :: "string list \<Rightarrow> string \<Rightarrow> string" where
  "strings_Join [] sep = []"
| "strings_Join [e] sep = e"
| "strings_Join (e # es) sep = e @ sep @ strings_Join es sep"

fun split_path :: "string \<Rightarrow> string list" where
  "split_path [] = [[]]"
| "split_path (c # cs) =
     (if c = CHR ''/'' then [] # split_path cs
      else (case split_path cs of [] \<Rightarrow> [[c]] | e # es \<Rightarrow> (c # e) # es))"

definition clean_step :: "bool \<Rightarrow> string list \<Rightarrow> string \<Rightarrow> string list" where
  "clean_step rooted out e =
     (if e = [] \<or> e = ''.'' then out
      else if e = ''..'' then
        (if out \<noteq> [] \<and> last out \<noteq> ''..'' then butlast out
         else if \<not> rooted then out @ [''..'']
         else out)
      else out @ [e])"

definition filepath_Clean :: "string \<Rightarrow> string" where
  "filepath_Clean path =
     (if path = [] then ''.''
      else
        (let rooted = (hd path = CHR ''/'');
             out = foldl (clean_step rooted) [] (split_path path)
         in if rooted then ''/'' @ strings_Join out ''/''
            else if out = [] then ''.''
            else strings_Join out ''/''))"

fun filepath_Join :: "string list \<Rightarrow> string" where
  "filepath_Join [] = []"
| "filepath_Join (e # es) =
     (if e \<noteq> [] then filepath_Clean (strings_Join (e # es) ''/'') else filepath_Join es)"

section \<open>The execution retrier\<close>

text \<open>
  The loop of \<^verbatim>\<open>RetryWithBackoff\<close>, entered with the loop variable \<open>attempt\<close> and
  the variable \<open>lastErr\<close>. The wrapped operation \<open>fn\<close> is a closure that acts on the
  world and returns an error or \<^verbatim>\<open>nil\<close>. Go's \<^verbatim>\<open>int\<close> has 64 bits; the model
  counts in \<open>int\<close>, which agrees with the code as long as \<open>attempt * attempt\<close>
  seconds fit a \<^verbatim>\<open>time.Duration\<close> (up to 96038 attempts; the only caller asks
  for 3).
\<close>

function retry_loop ::
  "string \<Rightarrow> int \<Rightarrow> (world \<Rightarrow> error option \<times> world) \<Rightarrow> int \<Rightarrow> error option \<Rightarrow> world
     \<Rightarrow> error option \<times> world" where
  "retry_loop operation maxAttempts fn attempt lastErr w =
     (if attempt \<le> maxAttempts then
        (case fn w of
           (None, w1) \<Rightarrow> (None, w1)
         | (Some err, w1) \<Rightarrow>
             retry_loop operation maxAttempts fn (attempt + 1) (Some err)
               (if attempt < maxAttempts then time_Sleep (attempt * attempt) w1 else w1))
      else
        (Some (Error (''operation '' @ operation @ '' failed after '' @ show_int maxAttempts
                        @ '' attempts: ''
                        @ (case lastErr of Some e \<Rightarrow> message e | None \<Rightarrow> ''%!w(<nil>)''))
                     lastErr), w))"
  by pat_completeness auto
termination
  by (relation "measure (\<lambda>(operation, maxAttempts, fn, attempt, lastErr, w).
        nat (maxAttempts + 1 - attempt))") auto

definition RetryWithBackoff ::
  "string \<Rightarrow> int \<Rightarrow> (world \<Rightarrow> error option \<times> world) \<Rightarrow> world \<Rightarrow> error option \<times> world" where
  "RetryWithBackoff operation maxAttempts fn w = retry_loop operation maxAttempts fn 1 None w"

section \<open>Database lifecycle\<close>

definition CreateDatabase :: "DBConfig \<Rightarrow> world \<Rightarrow> error option \<times> world" where
  "CreateDatabase config w =
     (let cmd = (Command ''psql''
                   [''-h'', Host config, ''-p'', Port config, ''-U'', User config,
                    ''-c'', ''CREATE DATABASE '' @ DBName config @ '';'',
                    ''postgres''])
                \<lparr>env := [''PGPASSWORD='' @ Password config]\<rparr>
      in case CombinedOutput cmd w of
           ((output, Some err), w1) \<Rightarrow> (Some (wrap ''failed to create database: '' err), w1)
         | ((output, None), w1) \<Rightarrow> (None, w1))"

section \<open>The section dumper\<close>

text \<open>
  The two local variables \<^verbatim>\<open>format\<close> and \<^verbatim>\<open>fileExt\<close> of
  \<^verbatim>\<open>dumpDatabaseSection\<close>, as the \<^verbatim>\<open>if\<close> on the section sets them.
\<close>

definition dump_format :: "string \<Rightarrow> string" where
  "dump_format section = (if section = ''pre-data'' then ''p'' else ''c'')"

definition dump_fileExt :: "string \<Rightarrow> string" where
  "dump_fileExt section = (if section = ''pre-data'' then ''.sql'' else ''.dump'')"

definition dumpDatabaseSection :: "DBConfig \<Rightarrow> string \<Rightarrow> string \<Rightarrow> world \<Rightarrow> error option \<times> world" where
  "dumpDatabaseSection config outputFile0 section w =
     (let outputFile = outputFile0 @ dump_fileExt section;
          cmd = (Command ''pg_dump''
                   [''-h'', Host config, ''-p'', Port config, ''-U'', User config,
                    ''--no-owner'', ''--no-privileges'',
                    ''-F'' @ dump_format section,
                    ''--section='' @ section,
                    ''-f'', outputFile,
                    DBName config])
                \<lparr>env := [''PGPASSWORD='' @ Password config]\<rparr>
      in case CombinedOutput cmd w of
           ((output, Some err), w1) \<Rightarrow> (Some (wrap ''failed to dump database section: '' err), w1)
         | ((output, None), w1) \<Rightarrow> (None, w1))"

text \<open>
  \<^verbatim>\<open>DumpWorkflow\<close>. The inner loop over the sections and the outer loop over
  the two databases are recursions over the lists the code iterates; an error
  leaves both loops at once.
\<close>

fun dump_sections ::
  "DBConfig \<Rightarrow> string \<Rightarrow> string \<Rightarrow> string list \<Rightarrow> world
     \<Rightarrow> error option \<times> world" where
  "dump_sections config namePrefix outputDir [] w = (None, w)"
| "dump_sections config namePrefix outputDir (section # sections) w =
     (let outFile = filepath_Join [outputDir, namePrefix @ ''_'' @ section]
      in case dumpDatabaseSection config outFile section w of
           (Some err, w1) \<Rightarrow>
             (Some (wrap (''failed to dump '' @ namePrefix @ '' '' @ section @ '': '') err), w1)
         | (None, w1) \<Rightarrow> dump_sections config namePrefix outputDir sections w1)"

fun dump_databases ::
  "(DBConfig \<times> string) list \<Rightarrow> string \<Rightarrow> string list \<Rightarrow> world
     \<Rightarrow> error option \<times> world" where
  "dump_databases [] outputDir sections w = (None, w)"
| "dump_databases (db # databases) outputDir sections w =
     (case dump_sections (fst db) (snd db) outputDir sections w of
        (Some err, w1) \<Rightarrow> (Some err, w1)
      | (None, w1) \<Rightarrow> dump_databases databases outputDir sections w1)"

definition DumpWorkflow ::
  "DBConfig \<Rightarrow> DBConfig \<Rightarrow> string \<Rightarrow> world
     \<Rightarrow> error option \<times> world" where
  "DumpWorkflow moodysConfig tenantConfig outputDir w =
     (case os_MkdirAll outputDir w of
        (Some err, w1) \<Rightarrow> (Some (wrap ''failed to create output directory: '' err), w1)
      | (None, w1) \<Rightarrow>
          dump_databases [(moodysConfig, ''moodys''), (tenantConfig, ''tenant'')] outputDir
            [''pre-data'', ''data'', ''post-data''] w1)"

section \<open>The foreign-link rewriter\<close>

text \<open>
  \<^verbatim>\<open>strings.Index(s, substr)\<close>: the position of the leftmost occurrence of
  \<open>substr\<close> in \<open>s\<close>, \<open>None\<close> for Go's \<open>-1\<close>. A Go string is a sequence of bytes, as
  a \<open>string\<close> is here.
\<close>

fun strings_Index :: "string \<Rightarrow> string \<Rightarrow> nat option" where
  "strings_Index [] substr = (if substr = [] then Some 0 else None)"
| "strings_Index (c # cs) substr =
     (if prefix substr (c # cs) then Some 0 else map_option Suc (strings_Index cs substr))"

lemma strings_Index_bound:
  "strings_Index s substr = Some j \<Longrightarrow> j + length substr \<le> length s"
proof (induction s arbitrary: j)
  case Nil
  then show ?case by (simp split: if_splits)
next
  case (Cons c cs)
  show ?case
  proof (cases "prefix substr (c # cs)")
    case True
    with Cons.prems show ?thesis by (auto dest: prefix_length_le)
  next
    case False
    with Cons.prems obtain i where "strings_Index cs substr = Some i" "j = Suc i"
      by auto
    with Cons.IH show ?thesis by fastforce
  qed
qed

text \<open>
  \<^verbatim>\<open>strings.Replace(s, old, new, -1)\<close> for a non-empty \<open>old\<close>: Go looks for the
  leftmost occurrence of \<open>old\<close>, copies what is before it, writes \<open>new\<close>, and goes
  on behind the occurrence. Every \<open>old\<close> the program passes starts with the name of
  an option, so it is never empty; for an empty \<open>old\<close> (where Go inserts \<open>new\<close> at
  every rune boundary) the model leaves \<open>s\<close> as it is.
\<close>

function strings_Replace :: "string \<Rightarrow> string \<Rightarrow> string \<Rightarrow> string" where
  "strings_Replace s old new =
     (if old = [] then s
      else case strings_Index s old of
             None \<Rightarrow> s
           | Some j \<Rightarrow> take j s @ new @ strings_Replace (drop (j + length old) s) old new)"
  by pat_completeness auto
termination
proof (relation "measure (\<lambda>(s, old, new). length s)")
  show "wf (measure (\<lambda>(s, old, new). length s))" by simp
next
  fix s old new :: string and j
  assume "old \<noteq> []" and "strings_Index s old = Some j"
  then have "j + length old \<le> length s" and "0 < length old"
    using strings_Index_bound [of s old j] by simp_all
  then show "((drop (j + length old) s, old, new), (s, old, new))
      \<in> measure (\<lambda>(s, old, new). length s)"
    by (simp del: length_greater_0_conv)
qed

text \<open>The five \<^verbatim>\<open>fmt.Sprintf("key '%s'", value)\<close> of \<^verbatim>\<open>modifyPreDataFile\<close>.\<close>

definition option_token :: "string \<Rightarrow> string \<Rightarrow> string" where
  "option_token key v = key @ '' '' @ [CHR 0x27] @ v @ [CHR 0x27]"

text \<open>The string \<^verbatim>\<open>modified\<close> after the five replacements, in the order of the code.\<close>

definition rewrite_content :: "DBConfig \<Rightarrow> DBConfig \<Rightarrow> string \<Rightarrow> string" where
  "rewrite_content srcMoodysConfig destMoodysConfig content =
     (let modified = content;
          modified = strings_Replace modified
                       (option_token ''dbname'' (DBName srcMoodysConfig))
                       (option_token ''dbname'' (DBName destMoodysConfig));
          modified = strings_Replace modified
                       (option_token ''host'' (Host srcMoodysConfig))
                       (option_token ''host'' (Host destMoodysConfig));
          modified = strings_Replace modified
                       (option_token ''port'' (Port srcMoodysConfig))
                       (option_token ''port'' (Port destMoodysConfig));
          modified = strings_Replace modified
                       (option_token ''user'' (User srcMoodysConfig))
                       (option_token ''user'' (User destMoodysConfig));
          modified = strings_Replace modified
                       (option_token ''password'' (Password srcMoodysConfig))
                       (option_token ''password'' (Password destMoodysConfig))
      in modified)"

definition modifyPreDataFile :: "string \<Rightarrow> DBConfig \<Rightarrow> DBConfig \<Rightarrow> world \<Rightarrow> error option \<times> world" where
  "modifyPreDataFile inputFile srcMoodysConfig destMoodysConfig w =
     (case os_ReadFile inputFile w of
        (Inl err, w1) \<Rightarrow> (Some (wrap ''failed to read pre-data file: '' err), w1)
      | (Inr content, w1) \<Rightarrow>
          (case os_WriteFile inputFile
                  (rewrite_content srcMoodysConfig destMoodysConfig content) w1 of
             (Some err, w2) \<Rightarrow> (Some (wrap ''failed to write modified pre-data file: '' err), w2)
           | (None, w2) \<Rightarrow> (None, w2)))"

section \<open>The section restorer\<close>

text \<open>
  \<^verbatim>\<open>getNumCPUs\<close> returns the constant 1; the call of \<^verbatim>\<open>runtime.NumCPU()\<close> is
  commented out in its body, so the host (the world \<open>w\<close>) is not consulted.
\<close>

definition getNumCPUs :: "world \<Rightarrow> int" where
  "getNumCPUs w = 1"

text \<open>The closure that \<^verbatim>\<open>restoreDatabaseSection\<close> hands to the retrier.\<close>

definition restore_attempt :: "DBConfig \<Rightarrow> string \<Rightarrow> string \<Rightarrow> world \<Rightarrow> error option \<times> world" where
  "restore_attempt config inputFile section w =
     (let cmd0 =
            (if section = ''pre-data'' then
               Command ''psql''
                 [''-h'', Host config, ''-p'', Port config, ''-U'', User config,
                  ''-d'', DBName config,
                  ''-f'', inputFile]
             else
               (let numCPUs = getNumCPUs w
                in Command ''pg_restore''
                     [''-h'', Host config, ''-p'', Port config, ''-U'', User config,
                      ''-d'', DBName config,
                      ''--no-owner'', ''--no-privileges'',
                      ''-j'', show_int numCPUs,
                      inputFile]));
          cmd = cmd0\<lparr>env := [''PGPASSWORD='' @ Password config]\<rparr>
      in case CombinedOutput cmd w of
           ((output, Some err), w1) \<Rightarrow>
             (Some (Error (''failed to restore database section: '' @ message err
                             @ [CHR 0x0A] @ ''Output: '' @ output) (Some err)), w1)
         | ((output, None), w1) \<Rightarrow> (None, w1))"

text \<open>The row-count probe \<^verbatim>\<open>countCmd\<close>.\<close>

definition countCmd :: "DBConfig \<Rightarrow> command" where
  "countCmd config =
     (Command ''psql''
        [''-h'', Host config, ''-p'', Port config, ''-U'', User config,
         ''-d'', DBName config,
         ''-t'',
         ''-c'', ''SELECT COUNT(*) FROM customer_transactions;''])
     \<lparr>env := [''PGPASSWORD='' @ Password config]\<rparr>"

text \<open>
  \<^verbatim>\<open>restoreDatabaseSection\<close>: the retried restore, then, for the section
  \<^verbatim>\<open>"data"\<close>, the probe, whose output and error go to the log only.
\<close>

definition restoreDatabaseSection :: "DBConfig \<Rightarrow> string \<Rightarrow> string \<Rightarrow> world \<Rightarrow> error option \<times> world" where
  "restoreDatabaseSection config inputFile section w =
     (case RetryWithBackoff (''restore '' @ inputFile) 3
             (restore_attempt config inputFile section) w of
        (result, w1) \<Rightarrow>
          (if section = ''data'' then
             (case CombinedOutput (countCmd config) w1 of
                ((output, err), w2) \<Rightarrow> (result, w2))
           else (result, w1)))"

section \<open>The restore workflow\<close>

text \<open>The first loop of \<^verbatim>\<open>RestoreWorkflow\<close>, over the sections of the reference database.\<close>

fun restore_moodys_sections ::
  "DBConfig \<Rightarrow> string \<Rightarrow> string list \<Rightarrow> world
     \<Rightarrow> error option \<times> world" where
  "restore_moodys_sections destMoodysConfig inputDir [] w = (None, w)"
| "restore_moodys_sections destMoodysConfig inputDir (section # sections) w =
     (let fileExt = (if section = ''pre-data'' then ''.sql'' else ''.dump'');
          inFile = filepath_Join [inputDir, ''moodys_'' @ section @ fileExt]
      in case restoreDatabaseSection destMoodysConfig inFile section w of
           (Some err, w1) \<Rightarrow>
             (Some (wrap (''failed to restore moodys '' @ section @ '': '') err), w1)
         | (None, w1) \<Rightarrow> restore_moodys_sections destMoodysConfig inputDir sections w1)"

text \<open>The last loop, over the remaining sections of the tenant database.\<close>

fun restore_tenant_sections ::
  "DBConfig \<Rightarrow> string \<Rightarrow> string list \<Rightarrow> world
     \<Rightarrow> error option \<times> world" where
  "restore_tenant_sections destTenantConfig inputDir [] w = (None, w)"
| "restore_tenant_sections destTenantConfig inputDir (section # sections) w =
     (let inFile = filepath_Join [inputDir, ''tenant_'' @ section @ ''.dump'']
      in case restoreDatabaseSection destTenantConfig inFile section w of
           (Some err, w1) \<Rightarrow>
             (Some (wrap (''failed to restore tenant '' @ section @ '': '') err), w1)
         | (None, w1) \<Rightarrow> restore_tenant_sections destTenantConfig inputDir sections w1)"

definition RestoreWorkflow ::
  "DBConfig \<Rightarrow> DBConfig \<Rightarrow> DBConfig \<Rightarrow> DBConfig \<Rightarrow> string
     \<Rightarrow> world \<Rightarrow> error option \<times> world" where
  "RestoreWorkflow srcMoodysConfig srcTenantConfig destMoodysConfig destTenantConfig inputDir w =
     (case CreateDatabase destMoodysConfig w of
        (Some err, w1) \<Rightarrow> (Some (wrap ''failed to create moodys database: '' err), w1)
      | (None, w1) \<Rightarrow>
     (case CreateDatabase destTenantConfig w1 of
        (Some err, w2) \<Rightarrow> (Some (wrap ''failed to create tenant database: '' err), w2)
      | (None, w2) \<Rightarrow>
     (case restore_moodys_sections destMoodysConfig inputDir
             [''pre-data'', ''data'', ''post-data''] w2 of
        (Some err, w3) \<Rightarrow> (Some err, w3)
      | (None, w3) \<Rightarrow>
     (let tenantPreDataFile = filepath_Join [inputDir, ''tenant_pre-data.sql'']
      in case modifyPreDataFile tenantPreDataFile srcMoodysConfig destMoodysConfig w3 of
        (Some err, w4) \<Rightarrow> (Some (wrap ''failed to modify tenant pre-data file: '' err), w4)
      | (None, w4) \<Rightarrow>
     (case restoreDatabaseSection destTenantConfig tenantPreDataFile ''pre-data'' w4 of
        (Some err, w5) \<Rightarrow> (Some (wrap ''failed to restore tenant pre-data: '' err), w5)
      | (None, w5) \<Rightarrow>
          restore_tenant_sections destTenantConfig inputDir [''data'', ''post-data''] w5)))))"

section \<open>Specification of the retrier\<close>

text \<open>
  What the design says of the retrier, written out on its own: \<open>run_attempts fn n w\<close>
  invokes the wrapped operation exactly \<open>n\<close> times in a row from the world \<open>w\<close>,
  sleeps \<open>i\<^sup>2\<close> seconds between invocation \<open>i\<close> and invocation \<open>i + 1\<close>, and
  returns what the last invocation returned: nothing happens after it.
\<close>

fun run_attempts :: "(world \<Rightarrow> error option \<times> world) \<Rightarrow> nat \<Rightarrow> world \<Rightarrow> error option \<times> world" where
  "run_attempts fn 0 w = (None, w)"
| "run_attempts fn (Suc n) w =
     (case run_attempts fn n w of
        (r, w1) \<Rightarrow> fn (if n = 0 then w1 else time_Sleep (int n * int n) w1))"

text \<open>The error of \<^verbatim>\<open>RetryWithBackoff\<close> when every attempt has failed.\<close>

definition exhausted_error :: "string \<Rightarrow> int \<Rightarrow> error \<Rightarrow> error" where
  "exhausted_error operation maxAttempts lastErr =
     Error (''operation '' @ operation @ '' failed after '' @ show_int maxAttempts
              @ '' attempts: '' @ message lastErr) (Some lastErr)"

text \<open>
  The number a string of decimal digits denotes. It says what the \<^verbatim>\<open>%d\<close> in
  the error message of the retrier must print, independently of \<open>show_int\<close>.
\<close>

definition digit_value :: "char \<Rightarrow> nat" where
  "digit_value c = of_char c - 48"

definition decimal_value :: "string \<Rightarrow> nat" where
  "decimal_value s = foldl (\<lambda>a c. 10 * a + digit_value c) 0 s"

section \<open>Specification of the rewriter\<close>

text \<open>
  Literal substitution of every occurrence, with no limit on their number and no
  look at the text around them: the content is scanned from the left; wherever
  \<open>old\<close> starts, \<open>new\<close> is written and the scan goes on behind that occurrence.
\<close>

function replace_each :: "string \<Rightarrow> string \<Rightarrow> string \<Rightarrow> string" where
  "replace_each old new [] = []"
| "replace_each old new (c # cs) =
     (if old \<noteq> [] \<and> prefix old (c # cs)
      then new @ replace_each old new (drop (length old) (c # cs))
      else c # replace_each old new cs)"
  by pat_completeness auto
termination
  by (relation "measure (\<lambda>(old, new, s). length s)") auto

section \<open>One attempt of a restore, spelled out\<close>

text \<open>
  The process one attempt of the restore closure starts, and the error the
  closure makes of the answer of that process.
\<close>

definition restore_cmd :: "DBConfig \<Rightarrow> string \<Rightarrow> string \<Rightarrow> command" where
  "restore_cmd config inputFile section =
     (if section = ''pre-data'' then
        \<lparr>name = ''psql'',
         args = [''-h'', Host config, ''-p'', Port config, ''-U'', User config,
                 ''-d'', DBName config, ''-f'', inputFile],
         env = [''PGPASSWORD='' @ Password config]\<rparr>
      else
        \<lparr>name = ''pg_restore'',
         args = [''-h'', Host config, ''-p'', Port config, ''-U'', User config,
                 ''-d'', DBName config, ''--no-owner'', ''--no-privileges'',
                 ''-j'', ''1'', inputFile],
         env = [''PGPASSWORD='' @ Password config]\<rparr>)"

definition restore_error :: "string \<times> error option \<Rightarrow> error option" where
  "restore_error answer =
     (case snd answer of
        None \<Rightarrow> None
      | Some err \<Rightarrow> Some (Error (''failed to restore database section: '' @ message err
                                 @ [CHR 0x0A] @ ''Output: '' @ fst answer) (Some err)))"

section \<open>Specification of the artifact paths and of a workflow run\<close>

text \<open>
  A plain name is a single path element: not empty, neither \<open>.\<close> nor \<open>..\<close>, and
  without a separator. \<open>dir_prefix dir\<close> is what stands before the name of a
  file that lies directly under the directory \<open>dir\<close>: the cleaned directory and
  a separator (nothing for the current directory, the separator alone for the
  root).
\<close>

definition plain_name :: "string \<Rightarrow> bool" where
  "plain_name n \<longleftrightarrow> n \<noteq> [] \<and> n \<noteq> ''.'' \<and> n \<noteq> ''..'' \<and> CHR ''/'' \<notin> set n"

definition dir_prefix :: "string \<Rightarrow> string" where
  "dir_prefix dir =
     (if dir = [] \<or> filepath_Clean dir = ''.'' then []
      else if filepath_Clean dir = ''/'' then ''/''
      else filepath_Clean dir @ ''/'')"

definition clean_elem :: "string \<Rightarrow> bool" where
  "clean_elem e \<longleftrightarrow> e \<noteq> [] \<and> e \<noteq> ''.'' \<and> CHR ''/'' \<notin> set e"

text \<open>
  A workflow run is a sequence of steps, each with the message its failure is
  reported under. The steps run in order, each in the world the one before has
  left. The first step that fails ends the run: its error, wrapped in the
  message, is the result, and no later step is started.
\<close>

fun run_plan :: "(string \<times> (world \<Rightarrow> error option \<times> world)) list \<Rightarrow> world \<Rightarrow> error option \<times> world" where
  "run_plan [] w = (None, w)"
| "run_plan ((msg, step) # rest) w =
     (case step w of
        (Some err, w1) \<Rightarrow> (Some (Error (msg @ message err) (Some err)), w1)
      | (None, w1) \<Rightarrow> run_plan rest w1)"

text \<open>The process one call of \<^verbatim>\<open>dumpDatabaseSection\<close> starts.\<close>

definition dump_cmd :: "DBConfig \<Rightarrow> string \<Rightarrow> string \<Rightarrow> string \<Rightarrow> command" where
  "dump_cmd config format section file =
     \<lparr>name = ''pg_dump'',
      args = [''-h'', Host config, ''-p'', Port config, ''-U'', User config,
              ''--no-owner'', ''--no-privileges'', ''-F'' @ format,
              ''--section='' @ section, ''-f'', file, DBName config],
      env = [''PGPASSWORD='' @ Password config]\<rparr>"

section \<open>Test fixtures\<close>

text \<open>
  The configuration of the repository's test, and worlds in which the first \<open>k\<close>
  external processes fail and every later one succeeds.
\<close>

definition test_moodys :: DBConfig where
  "test_moodys = \<lparr>Host = ''localhost'', Port = ''5432'', User = ''postgres'',
                   Password = ''your_new_password'', DBName = ''moodys''\<rparr>"

definition exit_error :: error where
  "exit_error = Error ''exit status 1'' None"

definition flaky_world :: "nat \<Rightarrow> world" where
  "flaky_world k =
     \<lparr>proc = (\<lambda>n c. if n < k then (''connection refused'', Some exit_error) else ([], None)),
      started = 0,
      files = (\<lambda>p. Inl (Error ''no such file or directory'' None)),
      write_err = (\<lambda>p. None),
      mkdir_err = (\<lambda>p. None),
      numCPU = 8,
      trace = []\<rparr>"

text \<open>
  The destination of the repository's test, a destination in another
  environment, a schema-section artifact in which every old value also occurs
  outside an option token, and a world that holds an artifact.
\<close>

definition test_dest_moodys :: DBConfig where
  "test_dest_moodys = test_moodys\<lparr>DBName := ''moodys_restore_test''\<rparr>"

definition remote_moodys :: DBConfig where
  "remote_moodys = \<lparr>Host = ''db.internal'', Port = ''6543'', User = ''fdw_reader'',
                     Password = ''s3cret'', DBName = ''moodys_restore_test''\<rparr>"

definition fdw_options :: string where
  "fdw_options =
     ''CREATE SERVER moodys_server OPTIONS (dbname 'moodys', host 'localhost', port '5432'); ''
     @ ''CREATE USER MAPPING FOR postgres OPTIONS (password 'your_new_password', user 'postgres'); ''
     @ ''-- moodys localhost 5432 postgres your_new_password''"

definition artifact_world :: "string \<Rightarrow> string \<Rightarrow> world" where
  "artifact_world path content =
     (flaky_world 0)\<lparr>files := (files (flaky_world 0))(path := Inr content)\<rparr>"

definition test_dest_tenant :: DBConfig where
  "test_dest_tenant = test_moodys\<lparr>DBName := ''tenant_restore_test''\<rparr>"

text \<open>
  The tenant of the repository's test, and a world in which exactly the
  processes whose numbers are in \<open>F\<close> fail.
\<close>

definition test_tenant :: DBConfig where
  "test_tenant = test_moodys\<lparr>DBName := ''tenant''\<rparr>"

definition faulty_world :: "nat set \<Rightarrow> world" where
  "faulty_world F =
     (flaky_world 0)\<lparr>proc := (\<lambda>n c. if n \<in> F then (''connection refused'', Some exit_error)
                                   else ([], None))\<rparr>"

section \<open>The decimal printer\<close>

lemma digit_char_value:
  "k < 10 \<Longrightarrow> digit_value (''0123456789'' ! k) = k \<and> ''0123456789'' ! k \<in> set ''0123456789''"
proof -
  assume "k < 10"
  then have "k = 0 \<or> k = 1 \<or> k = 2 \<or> k = 3 \<or> k = 4 \<or> k = 5 \<or> k = 6
    \<or> k = 7 \<or> k = 8 \<or> k = 9"
    by arith
  then show ?thesis
    by (elim disjE) (simp_all add: digit_value_def)
qed

lemma decimal_value_snoc:
  "decimal_value (s @ [c]) = 10 * decimal_value s + digit_value c"
  by (simp add: decimal_value_def)

declare show_nat.simps [simp del]

lemma show_nat_decimal:
  "decimal_value (show_nat n) = n \<and> set (show_nat n) \<subseteq> set ''0123456789''
   \<and> show_nat n \<noteq> [] \<and> (0 < n \<longrightarrow> hd (show_nat n) \<noteq> CHR ''0'')"
proof (induction n rule: show_nat.induct)
  case (1 n)
  show ?case
  proof (cases "n < 10")
    case True
    then have s: "show_nat n = [''0123456789'' ! n]"
      by (subst show_nat.simps) simp
    from True have nz: "0 < n \<longrightarrow> ''0123456789'' ! n \<noteq> CHR ''0''"
      using digit_char_value [of n] by (auto simp: digit_value_def)
    from True digit_char_value [of n] nz show ?thesis
      unfolding s by (simp add: decimal_value_def)
  next
    case False
    then have s: "show_nat n = show_nat (n div 10) @ [''0123456789'' ! (n mod 10)]"
      by (subst show_nat.simps) simp
    have m: "n mod 10 < 10" by simp
    from False have pos: "0 < n div 10" by simp
    from 1 [OF False] pos have ih: "decimal_value (show_nat (n div 10)) = n div 10"
      "set (show_nat (n div 10)) \<subseteq> set ''0123456789''"
      "show_nat (n div 10) \<noteq> []" "hd (show_nat (n div 10)) \<noteq> CHR ''0''"
      by simp_all
    from digit_char_value [OF m] have d: "digit_value (''0123456789'' ! (n mod 10)) = n mod 10"
      "''0123456789'' ! (n mod 10) \<in> set ''0123456789''"
      by simp_all
    have "decimal_value (show_nat n) = n"
      unfolding s decimal_value_snoc using ih(1) d(1) by simp
    moreover have "set (show_nat n) \<subseteq> set ''0123456789''"
      unfolding s using ih(2) d(2) by auto
    moreover have "show_nat n \<noteq> []" unfolding s by simp
    moreover have "hd (show_nat n) \<noteq> CHR ''0''"
      unfolding s using ih(3,4) by simp
    ultimately show ?thesis by simp
  qed
qed

section \<open>The retrier runs the attempts of its specification\<close>

declare retry_loop.simps [simp del]

lemma run_attempts_Suc:
  "run_attempts fn (Suc n) w =
     fn (if n = 0 then snd (run_attempts fn n w)
         else time_Sleep (int n * int n) (snd (run_attempts fn n w)))"
  by (cases "run_attempts fn n w") auto

lemma retry_loop_advance:
  assumes "int n < maxAttempts"
    and "\<forall>i<n. fst (run_attempts fn (Suc i) w) \<noteq> None"
  shows "RetryWithBackoff operation maxAttempts fn w =
           retry_loop operation maxAttempts fn (int n + 1) (fst (run_attempts fn n w))
             (if n = 0 then snd (run_attempts fn n w)
              else time_Sleep (int n * int n) (snd (run_attempts fn n w)))"
  using assms
proof (induction n)
  case 0
  show ?case by (simp add: RetryWithBackoff_def)
next
  case (Suc n)
  from Suc.prems have lt: "int n < maxAttempts" and lt': "int n + 1 < maxAttempts"
    by simp_all
  from Suc.prems(2) have prev: "\<forall>i<n. fst (run_attempts fn (Suc i) w) \<noteq> None"
    using less_Suc_eq by blast
  from Suc.prems(2) have this_fails: "fst (run_attempts fn (Suc n) w) \<noteq> None"
    by blast
  let ?w = "if n = 0 then snd (run_attempts fn n w)
            else time_Sleep (int n * int n) (snd (run_attempts fn n w))"
  from this_fails obtain err w1 where r: "run_attempts fn (Suc n) w = (Some err, w1)"
    by (cases "run_attempts fn (Suc n) w") auto
  then have fnw: "fn ?w = (Some err, w1)"
    by (simp only: run_attempts_Suc)
  have "RetryWithBackoff operation maxAttempts fn w =
          retry_loop operation maxAttempts fn (int n + 1) (fst (run_attempts fn n w)) ?w"
    using Suc.IH [OF lt prev] .
  also have "\<dots> = retry_loop operation maxAttempts fn (int n + 1 + 1) (Some err)
                     (time_Sleep ((int n + 1) * (int n + 1)) w1)"
    using lt lt' fnw
    by (subst retry_loop.simps) simp
  finally show ?case
    using r by (simp add: algebra_simps)
qed

lemma retry_first_success:
  assumes "int k < maxAttempts"
    and "\<forall>i<k. fst (run_attempts fn (Suc i) w) \<noteq> None"
    and "fst (run_attempts fn (Suc k) w) = None"
  shows "RetryWithBackoff operation maxAttempts fn w = run_attempts fn (Suc k) w"
proof -
  let ?w = "if k = 0 then snd (run_attempts fn k w)
            else time_Sleep (int k * int k) (snd (run_attempts fn k w))"
  from assms(3) obtain w1 where r: "run_attempts fn (Suc k) w = (None, w1)"
    by (cases "run_attempts fn (Suc k) w") auto
  then have fnw: "fn ?w = (None, w1)"
    by (simp only: run_attempts_Suc)
  have "RetryWithBackoff operation maxAttempts fn w =
          retry_loop operation maxAttempts fn (int k + 1) (fst (run_attempts fn k w)) ?w"
    using retry_loop_advance [OF assms(1,2)] .
  also have "\<dots> = (None, w1)"
    using assms(1) fnw by (subst retry_loop.simps) simp
  finally show ?thesis using r by simp
qed

lemma retry_exhausted:
  assumes "1 \<le> maxAttempts"
    and "\<forall>i<nat maxAttempts. fst (run_attempts fn (Suc i) w) \<noteq> None"
  shows "\<exists>lastErr. fst (run_attempts fn (nat maxAttempts) w) = Some lastErr \<and>
           RetryWithBackoff operation maxAttempts fn w =
             (Some (exhausted_error operation maxAttempts lastErr),
              snd (run_attempts fn (nat maxAttempts) w))"
proof -
  define n where "n = nat maxAttempts - 1"
  have n: "int n + 1 = maxAttempts" "Suc n = nat maxAttempts" "int n < maxAttempts"
    using assms(1) by (auto simp: n_def)
  let ?w = "if n = 0 then snd (run_attempts fn n w)
            else time_Sleep (int n * int n) (snd (run_attempts fn n w))"
  have prev: "\<forall>i<n. fst (run_attempts fn (Suc i) w) \<noteq> None"
  proof (intro allI impI)
    fix i assume "i < n"
    then have "i < nat maxAttempts" using n(2) by simp
    with assms(2) show "fst (run_attempts fn (Suc i) w) \<noteq> None" by blast
  qed
  have "n < nat maxAttempts"
    using n(2) by simp
  with assms(2) have "fst (run_attempts fn (Suc n) w) \<noteq> None"
    by blast
  then obtain lastErr w1 where r: "run_attempts fn (Suc n) w = (Some lastErr, w1)"
    by (cases "run_attempts fn (Suc n) w") auto
  then have fnw: "fn ?w = (Some lastErr, w1)"
    by (simp only: run_attempts_Suc)
  have "RetryWithBackoff operation maxAttempts fn w =
          retry_loop operation maxAttempts fn maxAttempts (fst (run_attempts fn n w)) ?w"
    using retry_loop_advance [OF n(3) prev, of operation] n(1) by simp
  also have "\<dots> = retry_loop operation maxAttempts fn (maxAttempts + 1) (Some lastErr) w1"
    using fnw by (subst retry_loop.simps) simp
  also have "\<dots> = (Some (exhausted_error operation maxAttempts lastErr), w1)"
    by (subst retry_loop.simps) (simp add: exhausted_error_def)
  finally show ?thesis
    using r n(2) by simp
qed


lemmas fixture_defs = flaky_world_def test_moodys_def exit_error_def restore_attempt_def
  CombinedOutput_def Command_def getNumCPUs_def time_Sleep_def show_int_def show_nat.simps

section \<open>Claims on the retrier\<close>

text \<open>
  C5. For every operation and every maximum from 1 to 96038 attempts (the range
  in which the seconds of every backoff fit Go's 64-bit \<^verbatim>\<open>time.Duration\<close>, so
  that the model and the code agree; the only caller asks for 3):
  when the first \<open>k\<close> attempts fail and attempt \<open>k + 1\<close>, still within the
  maximum, does not, \<^verbatim>\<open>RetryWithBackoff\<close> returns \<^verbatim>\<open>nil\<close> right after that
  attempt; when every attempt fails, it returns an error whose message names the
  operation and the number of attempts and whose cause is the error of the last
  attempt. The number in the message is the decimal numeral, without leading
  zero, of the maximum.
\<close>

theorem RetryWithBackoff_result:
  assumes "1 \<le> maxAttempts" and "maxAttempts \<le> 96038"
  shows "(\<forall>k. int k < maxAttempts
              \<and> (\<forall>i<k. fst (run_attempts fn (Suc i) w) \<noteq> None)
              \<and> fst (run_attempts fn (Suc k) w) = None
            \<longrightarrow> RetryWithBackoff operation maxAttempts fn w
                  = (None, snd (run_attempts fn (Suc k) w)))
       \<and> ((\<forall>i<nat maxAttempts. fst (run_attempts fn (Suc i) w) \<noteq> None)
            \<longrightarrow> (\<exists>lastErr. fst (run_attempts fn (nat maxAttempts) w) = Some lastErr
                   \<and> RetryWithBackoff operation maxAttempts fn w
                     = (Some (Error (''operation '' @ operation @ '' failed after ''
                                      @ show_int maxAttempts @ '' attempts: ''
                                      @ message lastErr) (Some lastErr)),
                        snd (run_attempts fn (nat maxAttempts) w))))
       \<and> decimal_value (show_int maxAttempts) = nat maxAttempts
       \<and> set (show_int maxAttempts) \<subseteq> set ''0123456789''
       \<and> hd (show_int maxAttempts) \<noteq> CHR ''0''"
proof (intro conjI allI impI)
  fix k
  assume h: "int k < maxAttempts
              \<and> (\<forall>i<k. fst (run_attempts fn (Suc i) w) \<noteq> None)
              \<and> fst (run_attempts fn (Suc k) w) = None"
  then have "RetryWithBackoff operation maxAttempts fn w = run_attempts fn (Suc k) w"
    by (intro retry_first_success) simp_all
  with h show "RetryWithBackoff operation maxAttempts fn w
                 = (None, snd (run_attempts fn (Suc k) w))"
    by (metis prod.collapse)
next
  assume "\<forall>i<nat maxAttempts. fst (run_attempts fn (Suc i) w) \<noteq> None"
  from retry_exhausted [OF assms(1) this, of operation]
  show "\<exists>lastErr. fst (run_attempts fn (nat maxAttempts) w) = Some lastErr
          \<and> RetryWithBackoff operation maxAttempts fn w
            = (Some (Error (''operation '' @ operation @ '' failed after ''
                             @ show_int maxAttempts @ '' attempts: ''
                             @ message lastErr) (Some lastErr)),
               snd (run_attempts fn (nat maxAttempts) w))"
    by (simp add: exhausted_error_def)
next
  have s: "show_int maxAttempts = show_nat (nat maxAttempts)"
    using assms(1) by (simp add: show_int_def)
  have pos: "0 < nat maxAttempts" using assms(1) by simp
  show "decimal_value (show_int maxAttempts) = nat maxAttempts"
    unfolding s using show_nat_decimal [of "nat maxAttempts"] by blast
  show "set (show_int maxAttempts) \<subseteq> set ''0123456789''"
    unfolding s using show_nat_decimal [of "nat maxAttempts"] by blast
  show "hd (show_int maxAttempts) \<noteq> CHR ''0''"
    unfolding s using show_nat_decimal [of "nat maxAttempts"] pos by blast
qed

theorem RetryWithBackoff_result_witness:
  "(1::int) \<le> 3 \<and> (3::int) \<le> 96038
   \<and> RetryWithBackoff ''restore moodys_data.dump'' 3
         (restore_attempt test_moodys ''moodys_data.dump'' ''data'') (flaky_world 1)
       = (None, snd (run_attempts (restore_attempt test_moodys ''moodys_data.dump'' ''data'')
                       (Suc 1) (flaky_world 1)))
   \<and> fst (RetryWithBackoff ''restore moodys_data.dump'' 3
             (restore_attempt test_moodys ''moodys_data.dump'' ''data'') (flaky_world 3))
       = Some (Error (''operation restore moodys_data.dump failed after 3 attempts: ''
                        @ ''failed to restore database section: exit status 1''
                        @ [CHR 0x0A] @ ''Output: connection refused'')
                (Some (Error (''failed to restore database section: exit status 1''
                                @ [CHR 0x0A] @ ''Output: connection refused'')
                         (Some (Error ''exit status 1'' None)))))
   \<and> (1::int) \<le> 12 \<and> (12::int) \<le> 96038
   \<and> RetryWithBackoff ''restore moodys_data.dump'' 12
             (restore_attempt test_moodys ''moodys_data.dump'' ''data'') (flaky_world 12)
       = (Some (Error (''operation restore moodys_data.dump failed after 12 attempts: ''
                        @ ''failed to restore database section: exit status 1''
                        @ [CHR 0x0A] @ ''Output: connection refused'')
                (Some (Error (''failed to restore database section: exit status 1''
                                @ [CHR 0x0A] @ ''Output: connection refused'')
                         (Some (Error ''exit status 1'' None))))),
          snd (run_attempts (restore_attempt test_moodys ''moodys_data.dump'' ''data'')
                 12 (flaky_world 12)))
   \<and> started (snd (run_attempts (restore_attempt test_moodys ''moodys_data.dump'' ''data'')
                 12 (flaky_world 12))) = 12"
proof -
  let ?fn = "restore_attempt test_moodys ''moodys_data.dump'' ''data''"
  let ?op = "''restore moodys_data.dump''"
  let ?e = "Error (''failed to restore database section: exit status 1''
                     @ [CHR 0x0A] @ ''Output: connection refused'')
              (Some (Error ''exit status 1'' None))"
  have b3: "(1::int) \<le> 3" "(3::int) \<le> 96038" and b12: "(1::int) \<le> 12" "(12::int) \<le> 96038"
    by simp_all
  have one: "int 1 < 3 \<and> (\<forall>i<1. fst (run_attempts ?fn (Suc i) (flaky_world 1)) \<noteq> None)
               \<and> fst (run_attempts ?fn (Suc 1) (flaky_world 1)) = None"
    by (simp add: fixture_defs show_nat.simps)
  have all3: "\<forall>i<nat 3. fst (run_attempts ?fn (Suc i) (flaky_world 3)) \<noteq> None"
    by (simp add: fixture_defs show_nat.simps eval_nat_numeral less_Suc_eq)
  have last3: "fst (run_attempts ?fn (nat 3) (flaky_world 3)) = Some ?e"
    by (simp add: fixture_defs show_nat.simps eval_nat_numeral)
  have all12: "\<forall>i<nat 12. fst (run_attempts ?fn (Suc i) (flaky_world 12)) \<noteq> None"
    by (simp add: eval_nat_numeral less_Suc_eq) (simp add: fixture_defs show_nat.simps)
  have run12: "run_attempts ?fn 12 (flaky_world 12) = run_attempts ?fn (nat 12) (flaky_world 12)"
    by simp
  have last12: "fst (run_attempts ?fn (nat 12) (flaky_world 12)) = Some ?e"
    and started12: "started (snd (run_attempts ?fn (nat 12) (flaky_world 12))) = 12"
    by (simp_all add: fixture_defs show_nat.simps eval_nat_numeral)
  have s3: "show_int 3 = ''3''" and s12: "show_int 12 = ''12''"
    by (simp_all add: show_int_def show_nat.simps)
  from RetryWithBackoff_result [OF b3, of ?fn "flaky_world 1" ?op] one
  have a: "RetryWithBackoff ?op 3 ?fn (flaky_world 1)
             = (None, snd (run_attempts ?fn (Suc 1) (flaky_world 1)))"
    by blast
  from RetryWithBackoff_result [OF b3, of ?fn "flaky_world 3" ?op] all3
  obtain l3 where l3: "fst (run_attempts ?fn (nat 3) (flaky_world 3)) = Some l3"
    and e3: "RetryWithBackoff ?op 3 ?fn (flaky_world 3)
           = (Some (Error (''operation '' @ ?op @ '' failed after ''
                            @ show_int 3 @ '' attempts: '' @ message l3) (Some l3)),
              snd (run_attempts ?fn (nat 3) (flaky_world 3)))"
    by blast
  from l3 last3 have "l3 = ?e" by simp
  with e3 have b: "fst (RetryWithBackoff ?op 3 ?fn (flaky_world 3))
       = Some (Error (''operation restore moodys_data.dump failed after 3 attempts: ''
                        @ ''failed to restore database section: exit status 1''
                        @ [CHR 0x0A] @ ''Output: connection refused'') (Some ?e))"
    by (simp add: s3)
  from RetryWithBackoff_result [OF b12, of ?fn "flaky_world 12" ?op] all12
  obtain l12 where l12: "fst (run_attempts ?fn (nat 12) (flaky_world 12)) = Some l12"
    and e12: "RetryWithBackoff ?op 12 ?fn (flaky_world 12)
           = (Some (Error (''operation '' @ ?op @ '' failed after ''
                            @ show_int 12 @ '' attempts: '' @ message l12) (Some l12)),
              snd (run_attempts ?fn (nat 12) (flaky_world 12)))"
    by blast
  from l12 last12 have "l12 = ?e" by simp
  with e12 have c: "RetryWithBackoff ?op 12 ?fn (flaky_world 12)
       = (Some (Error (''operation restore moodys_data.dump failed after 12 attempts: ''
                        @ ''failed to restore database section: exit status 1''
                        @ [CHR 0x0A] @ ''Output: connection refused'') (Some ?e)),
          snd (run_attempts ?fn 12 (flaky_world 12)))"
    by (simp add: s12)
  from started12 have d: "started (snd (run_attempts ?fn 12 (flaky_world 12))) = 12"
    by simp
  from b3 b12 a b c d show ?thesis by blast
qed

text \<open>
  C4, as the code has it. For every wrapped operation that fails \<open>k\<close>
  consecutive times before it succeeds, \<^verbatim>\<open>RetryWithBackoff\<close> with a maximum of
  3 attempts invokes the operation exactly \<open>min (k + 1) 3\<close> times (the claim
  says \<open>min k 3\<close>), sleeps \<open>1\<^sup>2\<close> seconds after the first failed attempt and
  \<open>2\<^sup>2\<close> seconds after the second, and does nothing after the last attempt;
  it returns \<^verbatim>\<open>nil\<close> exactly when \<open>k < 3\<close>.
\<close>

theorem RetryWithBackoff_three_attempts:
  assumes "\<forall>i<k. fst (run_attempts fn (Suc i) w) \<noteq> None"
    and "fst (run_attempts fn (Suc k) w) = None"
  shows "snd (RetryWithBackoff operation 3 fn w) = snd (run_attempts fn (min (k + 1) 3) w)
       \<and> (fst (RetryWithBackoff operation 3 fn w) = None) = (k < 3)
       \<and> run_attempts fn 1 w = fn w
       \<and> run_attempts fn 2 w = (case fn w of (r1, w1) \<Rightarrow> fn (time_Sleep (1 * 1) w1))
       \<and> run_attempts fn 3 w =
           (case fn w of (r1, w1) \<Rightarrow>
              (case fn (time_Sleep (1 * 1) w1) of (r2, w2) \<Rightarrow> fn (time_Sleep (2 * 2) w2)))"
proof -
  have chain1: "run_attempts fn 1 w = fn w"
    by simp
  have chain2: "run_attempts fn 2 w = (case fn w of (r1, w1) \<Rightarrow> fn (time_Sleep (1 * 1) w1))"
    by (simp add: numeral_2_eq_2)
  have chain3: "run_attempts fn 3 w =
           (case fn w of (r1, w1) \<Rightarrow>
              (case fn (time_Sleep (1 * 1) w1) of (r2, w2) \<Rightarrow> fn (time_Sleep (2 * 2) w2)))"
    by (simp add: numeral_3_eq_3 split: prod.splits)
  have run: "snd (RetryWithBackoff operation 3 fn w) = snd (run_attempts fn (min (k + 1) 3) w)
       \<and> (fst (RetryWithBackoff operation 3 fn w) = None) = (k < 3)"
  proof (cases "k < 3")
    case True
    then have "int k < 3" by simp
    from retry_first_success [OF this assms, of operation] True assms(2)
    show ?thesis by (simp add: min_def)
  next
    case False
    then have "\<forall>i<nat 3. fst (run_attempts fn (Suc i) w) \<noteq> None"
      using assms(1) by simp
    from retry_exhausted [OF _ this, of operation] False
    show ?thesis by (auto simp: min_def)
  qed
  from run chain1 chain2 chain3 show ?thesis by blast
qed

theorem RetryWithBackoff_three_attempts_witness:
  "fst (run_attempts (restore_attempt test_moodys ''moodys_data.dump'' ''data'')
          (Suc 0) (flaky_world 2)) \<noteq> None
   \<and> fst (run_attempts (restore_attempt test_moodys ''moodys_data.dump'' ''data'')
          (Suc 1) (flaky_world 2)) \<noteq> None
   \<and> fst (run_attempts (restore_attempt test_moodys ''moodys_data.dump'' ''data'')
            (Suc 2) (flaky_world 2)) = None
   \<and> fst (RetryWithBackoff ''restore moodys_data.dump'' 3
            (restore_attempt test_moodys ''moodys_data.dump'' ''data'') (flaky_world 2)) = None
   \<and> started (snd (RetryWithBackoff ''restore moodys_data.dump'' 3
            (restore_attempt test_moodys ''moodys_data.dump'' ''data'') (flaky_world 2))) = 3
   \<and> [e \<leftarrow> trace (snd (RetryWithBackoff ''restore moodys_data.dump'' 3
            (restore_attempt test_moodys ''moodys_data.dump'' ''data'') (flaky_world 2))).
         \<forall>c. e \<noteq> Exec c] = [Sleep 1, Sleep 4]"
proof -
  let ?fn = "restore_attempt test_moodys ''moodys_data.dump'' ''data''"
  have fails: "\<forall>i<2. fst (run_attempts ?fn (Suc i) (flaky_world 2)) \<noteq> None"
    by (simp add: fixture_defs numeral_2_eq_2 less_Suc_eq)
  have succeeds: "fst (run_attempts ?fn (Suc 2) (flaky_world 2)) = None"
    by (simp add: fixture_defs numeral_2_eq_2)
  note run = RetryWithBackoff_three_attempts [OF fails succeeds, of "''restore moodys_data.dump''"]
  have m: "min (2 + 1) 3 = Suc (Suc (Suc 0))" by simp
  from run have "snd (RetryWithBackoff ''restore moodys_data.dump'' 3 ?fn (flaky_world 2))
             = snd (run_attempts ?fn (min (2 + 1) 3) (flaky_world 2))"
    by (rule conjunct1)
  then have w: "snd (RetryWithBackoff ''restore moodys_data.dump'' 3 ?fn (flaky_world 2))
             = snd (run_attempts ?fn (Suc (Suc (Suc 0))) (flaky_world 2))"
    by (simp only: m)
  from run have "(fst (RetryWithBackoff ''restore moodys_data.dump'' 3 ?fn (flaky_world 2)) = None)
                   = ((2::nat) < 3)"
    by blast
  then have r: "fst (RetryWithBackoff ''restore moodys_data.dump'' 3 ?fn (flaky_world 2)) = None"
    by simp
  have "started (snd (run_attempts ?fn (Suc (Suc (Suc 0))) (flaky_world 2))) = 3"
    by (simp add: fixture_defs)
  moreover have "[e \<leftarrow> trace (snd (run_attempts ?fn (Suc (Suc (Suc 0))) (flaky_world 2))).
                    \<forall>c. e \<noteq> Exec c] = [Sleep 1, Sleep 4]"
    by (simp add: fixture_defs)
  moreover have "fst (run_attempts ?fn (Suc 0) (flaky_world 2)) \<noteq> None"
    and "fst (run_attempts ?fn (Suc 1) (flaky_world 2)) \<noteq> None"
    by (simp_all add: fixture_defs)
  ultimately show ?thesis using succeeds w r by simp
qed

text \<open>
  The claim C4 as it is written fails for an operation that succeeds at once
  (\<open>k = 0\<close>): the restore closure starts one process per invocation, and one
  process has been started when the retrier returns, not \<open>min 0 3 = 0\<close>.
\<close>

theorem RetryWithBackoff_min_k_counterexample:
  "fst (restore_attempt test_moodys ''moodys_data.dump'' ''data'' (flaky_world 0)) = None
   \<and> started (flaky_world 0) = 0
   \<and> started (snd (RetryWithBackoff ''restore moodys_data.dump'' 3
        (restore_attempt test_moodys ''moodys_data.dump'' ''data'') (flaky_world 0))) = 1
   \<and> min (0::nat) 3 \<noteq> 1"
  by (simp add: RetryWithBackoff_def retry_loop.simps [of _ _ _ 1] fixture_defs)

section \<open>The library replacement is the substitution of every occurrence\<close>

declare strings_Replace.simps [simp del]

lemma strings_Index_prefix:
  "prefix substr s \<Longrightarrow> strings_Index s substr = Some 0"
  by (cases s) auto

lemma strings_Replace_Nil: "strings_Replace [] old new = []"
  by (subst strings_Replace.simps) simp

lemma strings_Replace_prefix:
  assumes "old \<noteq> []" and "prefix old s"
  shows "strings_Replace s old new = new @ strings_Replace (drop (length old) s) old new"
  using assms by (subst strings_Replace.simps) (simp add: strings_Index_prefix)

lemma strings_Replace_Cons:
  assumes "old \<noteq> []" and "\<not> prefix old (c # cs)"
  shows "strings_Replace (c # cs) old new = c # strings_Replace cs old new"
proof (cases "strings_Index cs old")
  case None
  with assms show ?thesis
    by (subst strings_Replace.simps, subst (2) strings_Replace.simps) simp
next
  case (Some j)
  with assms show ?thesis
    by (subst strings_Replace.simps, subst (2) strings_Replace.simps) simp
qed

lemma strings_Replace_replace_each:
  "old \<noteq> [] \<Longrightarrow> strings_Replace s old new = replace_each old new s"
proof (induction old new s rule: replace_each.induct)
  case (1 old new)
  show ?case by (simp add: strings_Replace_Nil)
next
  case (2 old new c cs)
  show ?case
  proof (cases "prefix old (c # cs)")
    case True
    with 2 show ?thesis
      by (simp add: strings_Replace_prefix del: drop_Suc_Cons)
  next
    case False
    with 2 show ?thesis
      by (simp add: strings_Replace_Cons)
  qed
qed

lemma option_token_not_Nil: "option_token key v \<noteq> []"
  by (simp add: option_token_def)

section \<open>Claims on the foreign-link rewriter\<close>

text \<open>
  C7. For every content of the input file that can be read and written back,
  \<^verbatim>\<open>modifyPreDataFile\<close> succeeds and leaves, at the same path, the content in
  which every occurrence of the five option tokens of the old descriptor
  (\<^verbatim>\<open>dbname '<old>'\<close>, \<^verbatim>\<open>host '<old>'\<close>, \<^verbatim>\<open>port '<old>'\<close>, \<^verbatim>\<open>user '<old>'\<close>,
  \<^verbatim>\<open>password '<old>'\<close>, in this order; \<open>CHR 0x27\<close> is the single quote) has been
  replaced by the same token with the value of the new descriptor; an old value
  outside such a token stays; no other file changes, and the only actions are
  the read and the write of that file.
\<close>

theorem modifyPreDataFile_rewrites_in_place:
  assumes "files w inputFile = Inr content" and "write_err w inputFile = None"
  shows "modifyPreDataFile inputFile srcMoodysConfig destMoodysConfig w =
     (let modified =
        replace_each (''password '' @ [CHR 0x27] @ Password srcMoodysConfig @ [CHR 0x27])
                     (''password '' @ [CHR 0x27] @ Password destMoodysConfig @ [CHR 0x27])
       (replace_each (''user '' @ [CHR 0x27] @ User srcMoodysConfig @ [CHR 0x27])
                     (''user '' @ [CHR 0x27] @ User destMoodysConfig @ [CHR 0x27])
       (replace_each (''port '' @ [CHR 0x27] @ Port srcMoodysConfig @ [CHR 0x27])
                     (''port '' @ [CHR 0x27] @ Port destMoodysConfig @ [CHR 0x27])
       (replace_each (''host '' @ [CHR 0x27] @ Host srcMoodysConfig @ [CHR 0x27])
                     (''host '' @ [CHR 0x27] @ Host destMoodysConfig @ [CHR 0x27])
       (replace_each (''dbname '' @ [CHR 0x27] @ DBName srcMoodysConfig @ [CHR 0x27])
                     (''dbname '' @ [CHR 0x27] @ DBName destMoodysConfig @ [CHR 0x27])
          content))))
      in (None, w\<lparr>files := (files w)(inputFile := Inr modified),
                   trace := trace w @ [ReadFile inputFile, WriteFile inputFile modified]\<rparr>))"
proof -
  have tok: "\<And>key v. option_token key v = key @ '' '' @ [CHR 0x27] @ v @ [CHR 0x27]"
    by (simp add: option_token_def)
  show ?thesis
    using assms
    by (simp add: modifyPreDataFile_def os_ReadFile_def os_WriteFile_def rewrite_content_def
        strings_Replace_replace_each option_token_not_Nil Let_def)
      (simp add: tok)
qed

theorem modifyPreDataFile_rewrites_in_place_witness:
  "files (artifact_world ''dump_test/tenant_pre-data.sql'' fdw_options)
      ''dump_test/tenant_pre-data.sql'' = Inr fdw_options
   \<and> write_err (artifact_world ''dump_test/tenant_pre-data.sql'' fdw_options)
      ''dump_test/tenant_pre-data.sql'' = None
   \<and> fst (modifyPreDataFile ''dump_test/tenant_pre-data.sql'' test_moodys remote_moodys
          (artifact_world ''dump_test/tenant_pre-data.sql'' fdw_options)) = None
   \<and> files (snd (modifyPreDataFile ''dump_test/tenant_pre-data.sql'' test_moodys remote_moodys
          (artifact_world ''dump_test/tenant_pre-data.sql'' fdw_options)))
        ''dump_test/tenant_pre-data.sql''
      = Inr (''CREATE SERVER moodys_server OPTIONS (dbname 'moodys_restore_test', host 'db.internal', port '6543'); ''
             @ ''CREATE USER MAPPING FOR postgres OPTIONS (password 's3cret', user 'fdw_reader'); ''
             @ ''-- moodys localhost 5432 postgres your_new_password'')"
proof -
  let ?p = "''dump_test/tenant_pre-data.sql''"
  let ?w = "artifact_world ?p fdw_options"
  have r: "files ?w ?p = Inr fdw_options"
    by (simp add: artifact_world_def)
  have wr: "write_err ?w ?p = None"
    by (simp add: artifact_world_def flaky_world_def)
  note m = modifyPreDataFile_rewrites_in_place [OF r wr, of test_moodys remote_moodys]
  from m have ok: "fst (modifyPreDataFile ?p test_moodys remote_moodys ?w) = None"
    by (simp add: Let_def)
  from m have "files (snd (modifyPreDataFile ?p test_moodys remote_moodys ?w)) ?p =
      Inr (replace_each (''password '' @ [CHR 0x27] @ Password test_moodys @ [CHR 0x27])
                     (''password '' @ [CHR 0x27] @ Password remote_moodys @ [CHR 0x27])
       (replace_each (''user '' @ [CHR 0x27] @ User test_moodys @ [CHR 0x27])
                     (''user '' @ [CHR 0x27] @ User remote_moodys @ [CHR 0x27])
       (replace_each (''port '' @ [CHR 0x27] @ Port test_moodys @ [CHR 0x27])
                     (''port '' @ [CHR 0x27] @ Port remote_moodys @ [CHR 0x27])
       (replace_each (''host '' @ [CHR 0x27] @ Host test_moodys @ [CHR 0x27])
                     (''host '' @ [CHR 0x27] @ Host remote_moodys @ [CHR 0x27])
       (replace_each (''dbname '' @ [CHR 0x27] @ DBName test_moodys @ [CHR 0x27])
                     (''dbname '' @ [CHR 0x27] @ DBName remote_moodys @ [CHR 0x27])
          fdw_options)))))"
    by (simp add: Let_def)
  also have "\<dots> = Inr (''CREATE SERVER moodys_server OPTIONS (dbname 'moodys_restore_test', host 'db.internal', port '6543'); ''
             @ ''CREATE USER MAPPING FOR postgres OPTIONS (password 's3cret', user 'fdw_reader'); ''
             @ ''-- moodys localhost 5432 postgres your_new_password'')"
    by (simp add: remote_moodys_def test_moodys_def fdw_options_def)
  finally show ?thesis
    using r wr ok by simp
qed

text \<open>
  C10. When the read of the artifact fails, \<^verbatim>\<open>modifyPreDataFile\<close> returns an
  error that wraps the error of the read; it has attempted the read and nothing
  else, so no file has changed.
\<close>

theorem modifyPreDataFile_read_failure:
  assumes "files w inputFile = Inl err"
  shows "modifyPreDataFile inputFile srcMoodysConfig destMoodysConfig w =
           (Some (Error (''failed to read pre-data file: '' @ message err) (Some err)),
            w\<lparr>trace := trace w @ [ReadFile inputFile]\<rparr>)
       \<and> files (snd (modifyPreDataFile inputFile srcMoodysConfig destMoodysConfig w)) = files w"
  using assms
  by (simp add: modifyPreDataFile_def os_ReadFile_def wrap_def)

theorem modifyPreDataFile_read_failure_witness:
  "files (flaky_world 0) ''dump_test/tenant_pre-data.sql''
     = Inl (Error ''no such file or directory'' None)
   \<and> fst (modifyPreDataFile ''dump_test/tenant_pre-data.sql'' test_moodys test_dest_moodys
            (flaky_world 0))
     = Some (Error ''failed to read pre-data file: no such file or directory''
              (Some (Error ''no such file or directory'' None)))
   \<and> trace (snd (modifyPreDataFile ''dump_test/tenant_pre-data.sql'' test_moodys test_dest_moodys
            (flaky_world 0)))
     = [ReadFile ''dump_test/tenant_pre-data.sql'']"
proof -
  have r: "files (flaky_world 0) ''dump_test/tenant_pre-data.sql''
             = Inl (Error ''no such file or directory'' None)"
    by (simp add: flaky_world_def)
  from modifyPreDataFile_read_failure [OF r, of test_moodys test_dest_moodys] r
  show ?thesis
    by (simp add: flaky_world_def)
qed

section \<open>Claims on the section dumper\<close>

text \<open>
  C8. For every configuration (so for both database roles), every output path
  and every section, \<^verbatim>\<open>dumpDatabaseSection\<close> starts exactly one \<^verbatim>\<open>pg_dump\<close>
  whose format and output file depend on the section alone: plain text
  (\<^verbatim>\<open>-Fp\<close>) into the path extended by \<^verbatim>\<open>.sql\<close> for \<^verbatim>\<open>pre-data\<close>, the custom
  format (\<^verbatim>\<open>-Fc\<close>) into the path extended by \<^verbatim>\<open>.dump\<close> for every other section.
\<close>

theorem dumpDatabaseSection_format:
  "trace (snd (dumpDatabaseSection config outputFile section w)) =
     trace w @
       [Exec \<lparr>name = ''pg_dump'',
              args = [''-h'', Host config, ''-p'', Port config, ''-U'', User config,
                      ''--no-owner'', ''--no-privileges'',
                      (if section = ''pre-data'' then ''-Fp'' else ''-Fc''),
                      ''--section='' @ section,
                      ''-f'', outputFile @ (if section = ''pre-data'' then ''.sql'' else ''.dump''),
                      DBName config],
              env = [''PGPASSWORD='' @ Password config]\<rparr>]"
  by (simp add: dumpDatabaseSection_def CombinedOutput_def Command_def dump_format_def
        dump_fileExt_def Let_def split: prod.splits option.splits)

section \<open>The retried restore, unrolled\<close>

lemma restore_attempt_eq:
  "restore_attempt config inputFile section w =
     (restore_error (proc w (started w) (restore_cmd config inputFile section)),
      w\<lparr>started := Suc (started w),
        trace := trace w @ [Exec (restore_cmd config inputFile section)]\<rparr>)"
  by (simp add: restore_attempt_def restore_cmd_def restore_error_def CombinedOutput_def
        Command_def getNumCPUs_def show_int_def show_nat.simps Let_def split: prod.splits option.splits)

lemma retry_restore_unrolled:
  "RetryWithBackoff operation 3 (restore_attempt config inputFile section) w =
     (let c = restore_cmd config inputFile section; n = started w in
      case restore_error (proc w n c) of
        None \<Rightarrow> (None, w\<lparr>started := n + 1, trace := trace w @ [Exec c]\<rparr>)
      | Some e1 \<Rightarrow>
      (case restore_error (proc w (n + 1) c) of
        None \<Rightarrow> (None, w\<lparr>started := n + 2, trace := trace w @ [Exec c, Sleep 1, Exec c]\<rparr>)
      | Some e2 \<Rightarrow>
      (case restore_error (proc w (n + 2) c) of
        None \<Rightarrow> (None, w\<lparr>started := n + 3,
                         trace := trace w @ [Exec c, Sleep 1, Exec c, Sleep 4, Exec c]\<rparr>)
      | Some e3 \<Rightarrow> (Some (exhausted_error operation 3 e3),
                    w\<lparr>started := n + 3,
                      trace := trace w @ [Exec c, Sleep 1, Exec c, Sleep 4, Exec c]\<rparr>))))"
  by (simp add: RetryWithBackoff_def retry_loop.simps [of _ 3] restore_attempt_eq
        time_Sleep_def exhausted_error_def Let_def show_int_def split: option.splits)

lemma retry_restore_frame:
  assumes "n = started (snd (RetryWithBackoff operation 3
                               (restore_attempt config inputFile section) w))"
  shows "RetryWithBackoff operation 3 (restore_attempt config inputFile section)
           (w\<lparr>proc := (proc w)(n := answer)\<rparr>)
         = (fst (RetryWithBackoff operation 3 (restore_attempt config inputFile section) w),
            (snd (RetryWithBackoff operation 3 (restore_attempt config inputFile section) w))
              \<lparr>proc := (proc w)(n := answer)\<rparr>)"
proof -
  let ?c = "restore_cmd config inputFile section"
  let ?s = "started w"
  show ?thesis
  proof (cases "restore_error (proc w ?s ?c)")
    case None
    with assms show ?thesis
      by (simp add: retry_restore_unrolled Let_def)
  next
    case e1: (Some e1)
    show ?thesis
    proof (cases "restore_error (proc w (?s + 1) ?c)")
      case None
      with assms e1 show ?thesis
        by (simp add: retry_restore_unrolled Let_def)
    next
      case e2: (Some e2)
      show ?thesis
      proof (cases "restore_error (proc w (?s + 2) ?c)")
        case None
        with assms e1 e2 show ?thesis
          by (simp add: retry_restore_unrolled Let_def)
      next
        case (Some e3)
        with assms e1 e2 show ?thesis
          by (simp add: retry_restore_unrolled Let_def)
      qed
    qed
  qed
qed

lemmas restore_eval = restoreDatabaseSection_def retry_restore_unrolled restore_error_def
  restore_cmd_def countCmd_def CombinedOutput_def Command_def flaky_world_def
  test_dest_tenant_def test_moodys_def exit_error_def exhausted_error_def Let_def

section \<open>Claims on the section restorer\<close>

text \<open>
  C9, as the code has it. After every restore of the section \<^verbatim>\<open>data\<close>, whether
  the retried restore has succeeded or failed, \<^verbatim>\<open>restoreDatabaseSection\<close> starts
  the row-count probe once, after the retrier has returned. The answer of the
  probe reaches the log only: the value returned is the result of the retried
  restore, and it stays the same when the probe answers anything else. For every
  other section no probe is started.
\<close>

theorem restoreDatabaseSection_probe:
  "(case RetryWithBackoff (''restore '' @ inputFile) 3
           (restore_attempt config inputFile ''data'') w of
      (result, w1) \<Rightarrow>
        restoreDatabaseSection config inputFile ''data'' w
          = (result,
             w1\<lparr>started := Suc (started w1),
                trace := trace w1 @
                  [Exec \<lparr>name = ''psql'',
                         args = [''-h'', Host config, ''-p'', Port config, ''-U'', User config,
                                 ''-d'', DBName config, ''-t'',
                                 ''-c'', ''SELECT COUNT(*) FROM customer_transactions;''],
                         env = [''PGPASSWORD='' @ Password config]\<rparr>]\<rparr>)
        \<and> fst (restoreDatabaseSection config inputFile ''data''
                 (w\<lparr>proc := (proc w)(started w1 := answer)\<rparr>)) = result)
   \<and> (section \<noteq> ''data'' \<longrightarrow>
        restoreDatabaseSection config inputFile section w
          = RetryWithBackoff (''restore '' @ inputFile) 3
              (restore_attempt config inputFile section) w)"
proof -
  let ?R = "\<lambda>w. RetryWithBackoff (''restore '' @ inputFile) 3
                  (restore_attempt config inputFile ''data'') w"
  obtain result w1 where r: "?R w = (result, w1)"
    by (cases "?R w")
  have a: "restoreDatabaseSection config inputFile ''data'' w
          = (result,
             w1\<lparr>started := Suc (started w1),
                trace := trace w1 @
                  [Exec \<lparr>name = ''psql'',
                         args = [''-h'', Host config, ''-p'', Port config, ''-U'', User config,
                                 ''-d'', DBName config, ''-t'',
                                 ''-c'', ''SELECT COUNT(*) FROM customer_transactions;''],
                         env = [''PGPASSWORD='' @ Password config]\<rparr>]\<rparr>)"
    using r
    by (simp add: restoreDatabaseSection_def CombinedOutput_def countCmd_def Command_def
          split: prod.splits)
  have w1: "w1 = snd (?R w)" and res: "result = fst (?R w)"
    using r by simp_all
  have "?R (w\<lparr>proc := (proc w)(started w1 := answer)\<rparr>)
          = (result, w1\<lparr>proc := (proc w)(started w1 := answer)\<rparr>)"
    unfolding w1 res by (rule retry_restore_frame [OF refl])
  then have b: "fst (restoreDatabaseSection config inputFile ''data''
                 (w\<lparr>proc := (proc w)(started w1 := answer)\<rparr>)) = result"
    by (simp add: restoreDatabaseSection_def CombinedOutput_def split: prod.splits)
  have c: "section \<noteq> ''data'' \<longrightarrow>
        restoreDatabaseSection config inputFile section w
          = RetryWithBackoff (''restore '' @ inputFile) 3
              (restore_attempt config inputFile section) w"
    by (simp add: restoreDatabaseSection_def split: prod.splits)
  from a b c r show ?thesis by simp
qed

theorem restoreDatabaseSection_probe_witness:
  "restoreDatabaseSection test_dest_tenant ''dump_test/tenant_data.dump'' ''data'' (flaky_world 1)
     = (None,
        (flaky_world 1)\<lparr>started := 3,
          trace :=
            (let pg_restore =
                   \<lparr>name = ''pg_restore'',
                    args = [''-h'', ''localhost'', ''-p'', ''5432'', ''-U'', ''postgres'',
                            ''-d'', ''tenant_restore_test'', ''--no-owner'', ''--no-privileges'',
                            ''-j'', ''1'', ''dump_test/tenant_data.dump''],
                    env = [''PGPASSWORD=your_new_password'']\<rparr>;
                 probe =
                   \<lparr>name = ''psql'',
                    args = [''-h'', ''localhost'', ''-p'', ''5432'', ''-U'', ''postgres'',
                            ''-d'', ''tenant_restore_test'', ''-t'',
                            ''-c'', ''SELECT COUNT(*) FROM customer_transactions;''],
                    env = [''PGPASSWORD=your_new_password'']\<rparr>
             in [Exec pg_restore, Sleep 1, Exec pg_restore, Exec probe])\<rparr>)
   \<and> fst (restoreDatabaseSection test_dest_tenant ''dump_test/tenant_data.dump'' ''data''
          ((flaky_world 1)\<lparr>proc := (proc (flaky_world 1))
             (2 := (\<lambda>c. (''psql: connection refused'', Some (Error ''exit status 2'' None))))\<rparr>))
       = None
   \<and> ''post-data'' \<noteq> ''data''
   \<and> trace (snd (restoreDatabaseSection test_dest_tenant ''dump_test/tenant_post-data.dump''
                   ''post-data'' (flaky_world 0)))
     = [Exec \<lparr>name = ''pg_restore'',
              args = [''-h'', ''localhost'', ''-p'', ''5432'', ''-U'', ''postgres'',
                      ''-d'', ''tenant_restore_test'', ''--no-owner'', ''--no-privileges'',
                      ''-j'', ''1'', ''dump_test/tenant_post-data.dump''],
              env = [''PGPASSWORD=your_new_password'']\<rparr>]"
proof -
  let ?f = "''dump_test/tenant_data.dump''"
  let ?g = "''dump_test/tenant_post-data.dump''"
  let ?pg = "\<lparr>name = ''pg_restore'',
                    args = [''-h'', ''localhost'', ''-p'', ''5432'', ''-U'', ''postgres'',
                            ''-d'', ''tenant_restore_test'', ''--no-owner'', ''--no-privileges'',
                            ''-j'', ''1'', ''dump_test/tenant_data.dump''],
                    env = [''PGPASSWORD=your_new_password'']\<rparr>"
  let ?bad = "\<lambda>c::command. (''psql: connection refused'', Some (Error ''exit status 2'' None))"
  have r: "RetryWithBackoff (''restore '' @ ?f) 3
             (restore_attempt test_dest_tenant ?f ''data'') (flaky_world 1)
           = (None, (flaky_world 1)\<lparr>started := 2,
                       trace := [Exec ?pg, Sleep 1, Exec ?pg]\<rparr>)"
    by (simp add: restore_eval)
  note t = restoreDatabaseSection_probe [of test_dest_tenant ?f "flaky_world 1" ?bad
      "''post-data''"]
  from t have a: "restoreDatabaseSection test_dest_tenant ?f ''data'' (flaky_world 1)
     = (None,
        (flaky_world 1)\<lparr>started := 3,
          trace := [Exec ?pg, Sleep 1, Exec ?pg,
             Exec \<lparr>name = ''psql'',
                    args = [''-h'', ''localhost'', ''-p'', ''5432'', ''-U'', ''postgres'',
                            ''-d'', ''tenant_restore_test'', ''-t'',
                            ''-c'', ''SELECT COUNT(*) FROM customer_transactions;''],
                    env = [''PGPASSWORD=your_new_password'']\<rparr>]\<rparr>)"
    unfolding r by (simp add: test_dest_tenant_def test_moodys_def)
  from t have b: "fst (restoreDatabaseSection test_dest_tenant ?f ''data''
          ((flaky_world 1)\<lparr>proc := (proc (flaky_world 1))(2 := ?bad)\<rparr>)) = None"
    unfolding r by simp
  have ne: "''post-data'' \<noteq> ''data''" by simp
  from restoreDatabaseSection_probe [of test_dest_tenant ?g "flaky_world 0" ?bad
      "''post-data''"] ne
  have "restoreDatabaseSection test_dest_tenant ?g ''post-data'' (flaky_world 0)
          = RetryWithBackoff (''restore '' @ ?g) 3
              (restore_attempt test_dest_tenant ?g ''post-data'') (flaky_world 0)"
    by blast
  then have c: "trace (snd (restoreDatabaseSection test_dest_tenant ?g ''post-data''
                   (flaky_world 0)))
     = [Exec \<lparr>name = ''pg_restore'',
              args = [''-h'', ''localhost'', ''-p'', ''5432'', ''-U'', ''postgres'',
                      ''-d'', ''tenant_restore_test'', ''--no-owner'', ''--no-privileges'',
                      ''-j'', ''1'', ''dump_test/tenant_post-data.dump''],
              env = [''PGPASSWORD=your_new_password'']\<rparr>]"
    by (simp add: restore_eval)
  from a b ne c show ?thesis by (simp add: Let_def)
qed

text \<open>
  The claim C9 as it is written, that the probe runs only after a successful
  restore, fails when all three attempts of a \<^verbatim>\<open>data\<close> restore fail: the
  restore returns its error, and the probe has still been started, last.
\<close>

theorem probe_after_failed_restore_counterexample:
  "fst (restoreDatabaseSection test_dest_tenant ''dump_test/tenant_data.dump'' ''data''
          (flaky_world 3))
     = Some (Error (''operation restore dump_test/tenant_data.dump failed after 3 attempts: ''
                      @ ''failed to restore database section: exit status 1''
                      @ [CHR 0x0A] @ ''Output: connection refused'')
              (Some (Error (''failed to restore database section: exit status 1''
                              @ [CHR 0x0A] @ ''Output: connection refused'')
                       (Some (Error ''exit status 1'' None)))))
   \<and> trace (snd (restoreDatabaseSection test_dest_tenant ''dump_test/tenant_data.dump'' ''data''
          (flaky_world 3)))
     = (let pg_restore =
              \<lparr>name = ''pg_restore'',
               args = [''-h'', ''localhost'', ''-p'', ''5432'', ''-U'', ''postgres'',
                       ''-d'', ''tenant_restore_test'', ''--no-owner'', ''--no-privileges'',
                       ''-j'', ''1'', ''dump_test/tenant_data.dump''],
               env = [''PGPASSWORD=your_new_password'']\<rparr>;
            probe =
              \<lparr>name = ''psql'',
               args = [''-h'', ''localhost'', ''-p'', ''5432'', ''-U'', ''postgres'',
                       ''-d'', ''tenant_restore_test'', ''-t'',
                       ''-c'', ''SELECT COUNT(*) FROM customer_transactions;''],
               env = [''PGPASSWORD=your_new_password'']\<rparr>
        in [Exec pg_restore, Sleep 1, Exec pg_restore, Sleep 4, Exec pg_restore, Exec probe])"
  by (simp add: restore_eval show_int_def show_nat.simps)

text \<open>
  C3. On a host with eight processing units, the restore of a post-schema
  section starts \<^verbatim>\<open>pg_restore\<close> with \<^verbatim>\<open>-j 1\<close>: \<^verbatim>\<open>getNumCPUs\<close> returns the
  constant 1 and never asks the host.
\<close>

theorem restore_workers_on_eight_cpus:
  "numCPU (flaky_world 0) = 8
   \<and> trace (snd (restoreDatabaseSection test_moodys ''dump_test/moodys_post-data.dump''
                   ''post-data'' (flaky_world 0)))
     = [Exec \<lparr>name = ''pg_restore'',
              args = [''-h'', ''localhost'', ''-p'', ''5432'', ''-U'', ''postgres'',
                      ''-d'', ''moodys'', ''--no-owner'', ''--no-privileges'',
                      ''-j'', ''1'', ''dump_test/moodys_post-data.dump''],
              env = [''PGPASSWORD=your_new_password'']\<rparr>]"
  by (simp add: restoreDatabaseSection_def RetryWithBackoff_def retry_loop.simps [of _ 3]
        fixture_defs Let_def)

section \<open>A plain name is put directly under the cleaned directory\<close>

lemma split_path_not_Nil: "split_path s \<noteq> []"
  by (induction s) (auto split: list.splits)

lemma split_path_plain: "CHR ''/'' \<notin> set n \<Longrightarrow> split_path n = [n]"
  by (induction n) auto

lemma split_path_append:
  "CHR ''/'' \<notin> set n \<Longrightarrow> split_path (d @ ''/'' @ n) = split_path d @ [n]"
proof (induction d)
  case Nil
  then show ?case by (simp add: split_path_plain)
next
  case (Cons c d)
  then show ?case
    by (cases "split_path d") (auto simp: split_path_not_Nil)
qed

lemma split_path_no_sep: "e \<in> set (split_path s) \<Longrightarrow> CHR ''/'' \<notin> set e"
proof (induction s arbitrary: e)
  case Nil
  then show ?case by simp
next
  case (Cons c s)
  then show ?case
    by (cases "split_path s") (auto split: if_splits)
qed

lemma clean_step_elems:
  assumes "\<forall>e\<in>set out. clean_elem e" and "CHR ''/'' \<notin> set x"
  shows "\<forall>e\<in>set (clean_step rooted out x). clean_elem e"
  using assms
  by (auto simp: clean_step_def clean_elem_def dest: in_set_butlastD)

lemma foldl_clean_step_elems:
  assumes "\<forall>e\<in>set out. clean_elem e" and "\<forall>x\<in>set xs. CHR ''/'' \<notin> set x"
  shows "\<forall>e\<in>set (foldl (clean_step rooted) out xs). clean_elem e"
  using assms
proof (induction xs arbitrary: out)
  case Nil
  then show ?case by simp
next
  case (Cons x xs)
  from Cons.prems have "\<forall>e\<in>set (clean_step rooted out x). clean_elem e"
    by (intro clean_step_elems) simp_all
  with Cons show ?case by simp
qed

lemma strings_Join_snoc:
  "strings_Join (out @ [n]) sep = (if out = [] then n else strings_Join out sep @ sep @ n)"
  by (induction out sep rule: strings_Join.induct) auto

lemma strings_Join_clean:
  assumes "\<forall>e\<in>set out. clean_elem e" and "out \<noteq> []"
  shows "strings_Join out ''/'' \<noteq> [] \<and> strings_Join out ''/'' \<noteq> ''.''
       \<and> strings_Join out ''/'' \<noteq> ''/''"
proof (cases out)
  case Nil
  with assms show ?thesis by simp
next
  case (Cons e es)
  with assms(1) have e: "clean_elem e" by simp
  show ?thesis
  proof (cases es)
    case Nil
    with Cons e show ?thesis by (auto simp: clean_elem_def)
  next
    case (Cons e' es')
    with \<open>out = e # es\<close> e show ?thesis
      by (cases e) (auto simp: clean_elem_def)
  qed
qed

lemma Join_plain_name:
  assumes "plain_name n"
  shows "filepath_Join [dir, n] = dir_prefix dir @ n"
proof (cases "dir = []")
  case True
  from assms have "filepath_Clean n = n"
    by (cases n) (auto simp: plain_name_def filepath_Clean_def split_path_plain clean_step_def)
  with True assms show ?thesis
    by (simp add: dir_prefix_def plain_name_def)
next
  case False
  define rooted where "rooted = (hd dir = CHR ''/'')"
  define out where "out = foldl (clean_step rooted) [] (split_path dir)"
  have elems: "\<forall>e\<in>set out. clean_elem e"
    unfolding out_def by (intro foldl_clean_step_elems) (auto dest: split_path_no_sep)
  from assms have n: "CHR ''/'' \<notin> set n" "n \<noteq> []" "n \<noteq> ''.''" "n \<noteq> ''..''"
    by (simp_all add: plain_name_def)
  have hd: "hd (dir @ ''/'' @ n) = hd dir"
    using False by simp
  have "split_path (dir @ ''/'' @ n) = split_path dir @ [n]"
    using n(1) by (rule split_path_append)
  then have fold: "foldl (clean_step rooted) [] (split_path (dir @ ''/'' @ n)) = out @ [n]"
    using n by (simp only: foldl_append out_def) (simp add: clean_step_def)
  have join: "filepath_Join [dir, n] =
      (if rooted then ''/'' @ strings_Join (out @ [n]) ''/'' else strings_Join (out @ [n]) ''/'')"
  proof (cases rooted)
    case True
    with hd have h: "hd (dir @ ''/'' @ n) = CHR ''/''" by (simp add: rooted_def)
    from fold True have f: "foldl (clean_step True) [] (split_path (dir @ ''/'' @ n)) = out @ [n]"
      by simp
    have "filepath_Clean (dir @ ''/'' @ n) = ''/'' @ strings_Join (out @ [n]) ''/''"
      using h f by (simp add: filepath_Clean_def Let_def)
    with True False show ?thesis by simp
  next
    case not_rooted: False
    with hd have h: "hd (dir @ ''/'' @ n) \<noteq> CHR ''/''" by (simp add: rooted_def)
    from fold not_rooted
    have f: "foldl (clean_step False) [] (split_path (dir @ ''/'' @ n)) = out @ [n]"
      by simp
    have "filepath_Clean (dir @ ''/'' @ n) = strings_Join (out @ [n]) ''/''"
      using h f by (simp add: filepath_Clean_def Let_def)
    with not_rooted False show ?thesis by simp
  qed
  have clean: "filepath_Clean dir =
      (if rooted then ''/'' @ strings_Join out ''/''
       else if out = [] then ''.'' else strings_Join out ''/'')"
    using False unfolding filepath_Clean_def Let_def rooted_def out_def by auto
  show ?thesis
  proof (cases "out = []")
    case True
    with join clean False show ?thesis
      by (simp add: dir_prefix_def)
  next
    case nonempty: False
    from strings_Join_clean [OF elems nonempty] join clean False nonempty show ?thesis
      by (simp add: dir_prefix_def strings_Join_snoc)
  qed
qed

section \<open>The workflows run their steps in order\<close>

lemma run_plan_append:
  "run_plan (p @ q) w =
     (case run_plan p w of (Some err, w1) \<Rightarrow> (Some err, w1) | (None, w1) \<Rightarrow> run_plan q w1)"
  by (induction p w rule: run_plan.induct) (auto split: prod.splits option.splits)

lemma restore_moodys_sections_plan:
  "restore_moodys_sections destMoodysConfig inputDir sections w =
     run_plan (map (\<lambda>s. (''failed to restore moodys '' @ s @ '': '',
                           restoreDatabaseSection destMoodysConfig
                             (filepath_Join [inputDir, ''moodys_'' @ s
                                @ (if s = ''pre-data'' then ''.sql'' else ''.dump'')]) s))
                   sections) w"
  by (induction sections arbitrary: w)
     (auto simp: wrap_def Let_def split: prod.splits option.splits)

lemma restore_tenant_sections_plan:
  "restore_tenant_sections destTenantConfig inputDir sections w =
     run_plan (map (\<lambda>s. (''failed to restore tenant '' @ s @ '': '',
                           restoreDatabaseSection destTenantConfig
                             (filepath_Join [inputDir, ''tenant_'' @ s @ ''.dump'']) s))
                   sections) w"
  by (induction sections arbitrary: w)
     (auto simp: wrap_def Let_def split: prod.splits option.splits)

lemma plain_names:
  "plain_name ''moodys_pre-data.sql''" "plain_name ''moodys_data.dump''"
  "plain_name ''moodys_post-data.dump''" "plain_name ''tenant_pre-data.sql''"
  "plain_name ''tenant_data.dump''" "plain_name ''tenant_post-data.dump''"
  "plain_name ''moodys_pre-data''" "plain_name ''moodys_data''"
  "plain_name ''moodys_post-data''" "plain_name ''tenant_pre-data''"
  "plain_name ''tenant_data''" "plain_name ''tenant_post-data''"
  by (simp_all add: plain_name_def)

lemma RestoreWorkflow_plan:
  "RestoreWorkflow srcMoodysConfig srcTenantConfig destMoodysConfig destTenantConfig inputDir w =
     run_plan
       [(''failed to create moodys database: '', CreateDatabase destMoodysConfig),
        (''failed to create tenant database: '', CreateDatabase destTenantConfig),
        (''failed to restore moodys pre-data: '',
           restoreDatabaseSection destMoodysConfig
             (dir_prefix inputDir @ ''moodys_pre-data.sql'') ''pre-data''),
        (''failed to restore moodys data: '',
           restoreDatabaseSection destMoodysConfig
             (dir_prefix inputDir @ ''moodys_data.dump'') ''data''),
        (''failed to restore moodys post-data: '',
           restoreDatabaseSection destMoodysConfig
             (dir_prefix inputDir @ ''moodys_post-data.dump'') ''post-data''),
        (''failed to modify tenant pre-data file: '',
           modifyPreDataFile (dir_prefix inputDir @ ''tenant_pre-data.sql'')
             srcMoodysConfig destMoodysConfig),
        (''failed to restore tenant pre-data: '',
           restoreDatabaseSection destTenantConfig
             (dir_prefix inputDir @ ''tenant_pre-data.sql'') ''pre-data''),
        (''failed to restore tenant data: '',
           restoreDatabaseSection destTenantConfig
             (dir_prefix inputDir @ ''tenant_data.dump'') ''data''),
        (''failed to restore tenant post-data: '',
           restoreDatabaseSection destTenantConfig
             (dir_prefix inputDir @ ''tenant_post-data.dump'') ''post-data'')] w"
  unfolding RestoreWorkflow_def restore_moodys_sections_plan restore_tenant_sections_plan
  by (simp add: Join_plain_name [OF plain_names(1)] Join_plain_name [OF plain_names(2)]
        Join_plain_name [OF plain_names(3)] Join_plain_name [OF plain_names(4)]
        Join_plain_name [OF plain_names(5)] Join_plain_name [OF plain_names(6)]
        wrap_def Let_def del: filepath_Join.simps
        split: prod.splits option.splits)

lemma dumpDatabaseSection_eq:
  "dumpDatabaseSection config outputFile s w =
     (let c = dump_cmd config (if s = ''pre-data'' then ''p'' else ''c'') s
                (outputFile @ (if s = ''pre-data'' then ''.sql'' else ''.dump''))
      in (case snd (proc w (started w) c) of
            None \<Rightarrow> None
          | Some err \<Rightarrow> Some (Error (''failed to dump database section: '' @ message err)
                                (Some err)),
          w\<lparr>started := Suc (started w), trace := trace w @ [Exec c]\<rparr>))"
  by (simp add: dumpDatabaseSection_def dump_cmd_def CombinedOutput_def Command_def
        dump_format_def dump_fileExt_def wrap_def Let_def split: prod.splits option.splits)

lemma dump_sections_plan:
  "dump_sections config namePrefix outputDir sections w =
     run_plan (map (\<lambda>s. (''failed to dump '' @ namePrefix @ '' '' @ s @ '': '',
                           dumpDatabaseSection config
                             (filepath_Join [outputDir, namePrefix @ ''_'' @ s]) s))
                   sections) w"
  by (induction sections arbitrary: w)
     (auto simp: wrap_def Let_def split: prod.splits option.splits)

lemma Join_stem_ext:
  assumes "plain_name stem" and "plain_name (stem @ ext)"
  shows "filepath_Join [dir, stem] @ ext = dir_prefix dir @ stem @ ext"
  using Join_plain_name [OF assms(1), of dir] by simp

lemma DumpWorkflow_plan:
  "DumpWorkflow moodysConfig tenantConfig outputDir w =
     (case os_MkdirAll outputDir w of
        (Some err, w1) \<Rightarrow> (Some (Error (''failed to create output directory: '' @ message err)
                                   (Some err)), w1)
      | (None, w1) \<Rightarrow>
          run_plan
            [(''failed to dump moodys pre-data: '',
                dumpDatabaseSection moodysConfig (dir_prefix outputDir @ ''moodys_pre-data'') ''pre-data''),
             (''failed to dump moodys data: '',
                dumpDatabaseSection moodysConfig (dir_prefix outputDir @ ''moodys_data'') ''data''),
             (''failed to dump moodys post-data: '',
                dumpDatabaseSection moodysConfig (dir_prefix outputDir @ ''moodys_post-data'') ''post-data''),
             (''failed to dump tenant pre-data: '',
                dumpDatabaseSection tenantConfig (dir_prefix outputDir @ ''tenant_pre-data'') ''pre-data''),
             (''failed to dump tenant data: '',
                dumpDatabaseSection tenantConfig (dir_prefix outputDir @ ''tenant_data'') ''data''),
             (''failed to dump tenant post-data: '',
                dumpDatabaseSection tenantConfig (dir_prefix outputDir @ ''tenant_post-data'') ''post-data'')]
            w1)"
  unfolding DumpWorkflow_def
  by (simp add: dump_sections_plan Join_plain_name [OF plain_names(7)]
        Join_plain_name [OF plain_names(8)] Join_plain_name [OF plain_names(9)]
        Join_plain_name [OF plain_names(10)] Join_plain_name [OF plain_names(11)]
        Join_plain_name [OF plain_names(12)]
        wrap_def Let_def del: filepath_Join.simps
        split: prod.splits option.splits)

lemma DumpWorkflow_success_trace:
  assumes "fst (DumpWorkflow moodysConfig tenantConfig outputDir w) = None"
  shows "trace (snd (DumpWorkflow moodysConfig tenantConfig outputDir w)) =
     trace w @
       [MkdirAll outputDir,
        Exec (dump_cmd moodysConfig ''p'' ''pre-data'' (dir_prefix outputDir @ ''moodys_pre-data.sql'')),
        Exec (dump_cmd moodysConfig ''c'' ''data'' (dir_prefix outputDir @ ''moodys_data.dump'')),
        Exec (dump_cmd moodysConfig ''c'' ''post-data'' (dir_prefix outputDir @ ''moodys_post-data.dump'')),
        Exec (dump_cmd tenantConfig ''p'' ''pre-data'' (dir_prefix outputDir @ ''tenant_pre-data.sql'')),
        Exec (dump_cmd tenantConfig ''c'' ''data'' (dir_prefix outputDir @ ''tenant_data.dump'')),
        Exec (dump_cmd tenantConfig ''c'' ''post-data'' (dir_prefix outputDir @ ''tenant_post-data.dump''))]"
  using assms
  by (simp add: DumpWorkflow_plan dumpDatabaseSection_eq os_MkdirAll_def Let_def
        split: prod.splits option.splits)

lemma dir_prefix_dump_test: "dir_prefix ''dump_test'' = ''dump_test/''"
  by (simp add: dir_prefix_def filepath_Clean_def clean_step_def)

lemmas workflow_eval = run_plan.simps CreateDatabase_def restore_eval wrap_def
  faulty_world_def test_dest_moodys_def test_tenant_def dir_prefix_dump_test
  show_int_def show_nat.simps modifyPreDataFile_def os_ReadFile_def os_WriteFile_def

section \<open>Claims on the workflows\<close>

text \<open>
  C1. Every run of \<^verbatim>\<open>RestoreWorkflow\<close> is the run of a fixed sequence of
  steps, from the first on and up to the first step that fails: create the
  destination reference database, create the destination tenant database,
  restore the reference sections \<^verbatim>\<open>pre-data\<close>, \<^verbatim>\<open>data\<close>, \<^verbatim>\<open>post-data\<close>; and
  only in the world these five steps leave when all of them have succeeded:
  rewrite the tenant schema artifact, restore the tenant sections \<^verbatim>\<open>pre-data\<close>,
  \<^verbatim>\<open>data\<close>, \<^verbatim>\<open>post-data\<close>. When one of the first five steps fails, the
  workflow returns that failure and the world as that step left it.
\<close>

theorem RestoreWorkflow_order:
  "RestoreWorkflow srcMoodysConfig srcTenantConfig destMoodysConfig destTenantConfig inputDir w =
     (case run_plan
             [(''failed to create moodys database: '', CreateDatabase destMoodysConfig),
              (''failed to create tenant database: '', CreateDatabase destTenantConfig),
              (''failed to restore moodys pre-data: '',
                 restoreDatabaseSection destMoodysConfig
                   (dir_prefix inputDir @ ''moodys_pre-data.sql'') ''pre-data''),
              (''failed to restore moodys data: '',
                 restoreDatabaseSection destMoodysConfig
                   (dir_prefix inputDir @ ''moodys_data.dump'') ''data''),
              (''failed to restore moodys post-data: '',
                 restoreDatabaseSection destMoodysConfig
                   (dir_prefix inputDir @ ''moodys_post-data.dump'') ''post-data'')] w of
        (Some err, w1) \<Rightarrow> (Some err, w1)
      | (None, w1) \<Rightarrow>
          run_plan
            [(''failed to modify tenant pre-data file: '',
                modifyPreDataFile (dir_prefix inputDir @ ''tenant_pre-data.sql'')
                  srcMoodysConfig destMoodysConfig),
             (''failed to restore tenant pre-data: '',
                restoreDatabaseSection destTenantConfig
                  (dir_prefix inputDir @ ''tenant_pre-data.sql'') ''pre-data''),
             (''failed to restore tenant data: '',
                restoreDatabaseSection destTenantConfig
                  (dir_prefix inputDir @ ''tenant_data.dump'') ''data''),
             (''failed to restore tenant post-data: '',
                restoreDatabaseSection destTenantConfig
                  (dir_prefix inputDir @ ''tenant_post-data.dump'') ''post-data'')] w1)"
  unfolding RestoreWorkflow_plan run_plan_append [symmetric] by simp

theorem RestoreWorkflow_order_witness:
  "RestoreWorkflow test_moodys test_tenant test_dest_moodys test_dest_tenant ''dump_test''
     (faulty_world {3, 4, 5})
   = (Some (Error (''failed to restore moodys data: ''
                     @ ''operation restore dump_test/moodys_data.dump failed after 3 attempts: ''
                     @ ''failed to restore database section: exit status 1''
                     @ [CHR 0x0A] @ ''Output: connection refused'')
             (Some (Error (''operation restore dump_test/moodys_data.dump failed after 3 attempts: ''
                     @ ''failed to restore database section: exit status 1''
                     @ [CHR 0x0A] @ ''Output: connection refused'')
               (Some (Error (''failed to restore database section: exit status 1''
                     @ [CHR 0x0A] @ ''Output: connection refused'')
                 (Some (Error ''exit status 1'' None))))))),
      (faulty_world {3, 4, 5})\<lparr>started := 7,
        trace :=
          (let psql = (\<lambda>more. \<lparr>name = ''psql'',
                          args = [''-h'', ''localhost'', ''-p'', ''5432'', ''-U'', ''postgres''] @ more,
                          env = [''PGPASSWORD=your_new_password'']\<rparr>);
               pg_restore = \<lparr>name = ''pg_restore'',
                          args = [''-h'', ''localhost'', ''-p'', ''5432'', ''-U'', ''postgres'',
                                  ''-d'', ''moodys_restore_test'', ''--no-owner'',
                                  ''--no-privileges'', ''-j'', ''1'', ''dump_test/moodys_data.dump''],
                          env = [''PGPASSWORD=your_new_password'']\<rparr>
           in [Exec (psql [''-c'', ''CREATE DATABASE moodys_restore_test;'', ''postgres'']),
               Exec (psql [''-c'', ''CREATE DATABASE tenant_restore_test;'', ''postgres'']),
               Exec (psql [''-d'', ''moodys_restore_test'', ''-f'', ''dump_test/moodys_pre-data.sql'']),
               Exec pg_restore, Sleep 1, Exec pg_restore, Sleep 4, Exec pg_restore,
               Exec (psql [''-d'', ''moodys_restore_test'', ''-t'',
                              ''-c'', ''SELECT COUNT(*) FROM customer_transactions;''])])\<rparr>)
   \<and> RestoreWorkflow test_moodys test_tenant test_dest_moodys test_dest_tenant ''dump_test''
       (flaky_world 0)
     = (Some (Error (''failed to modify tenant pre-data file: ''
                       @ ''failed to read pre-data file: no such file or directory'')
               (Some (Error ''failed to read pre-data file: no such file or directory''
                 (Some (Error ''no such file or directory'' None))))),
        (flaky_world 0)\<lparr>started := 6,
          trace :=
            (let psql = (\<lambda>more. \<lparr>name = ''psql'',
                            args = [''-h'', ''localhost'', ''-p'', ''5432'', ''-U'', ''postgres''] @ more,
                            env = [''PGPASSWORD=your_new_password'']\<rparr>);
                 pg_restore = (\<lambda>file. \<lparr>name = ''pg_restore'',
                            args = [''-h'', ''localhost'', ''-p'', ''5432'', ''-U'', ''postgres'',
                                    ''-d'', ''moodys_restore_test'', ''--no-owner'',
                                    ''--no-privileges'', ''-j'', ''1'', file],
                            env = [''PGPASSWORD=your_new_password'']\<rparr>)
             in [Exec (psql [''-c'', ''CREATE DATABASE moodys_restore_test;'', ''postgres'']),
                 Exec (psql [''-c'', ''CREATE DATABASE tenant_restore_test;'', ''postgres'']),
                 Exec (psql [''-d'', ''moodys_restore_test'', ''-f'', ''dump_test/moodys_pre-data.sql'']),
                 Exec (pg_restore ''dump_test/moodys_data.dump''),
                 Exec (psql [''-d'', ''moodys_restore_test'', ''-t'',
                                ''-c'', ''SELECT COUNT(*) FROM customer_transactions;'']),
                 Exec (pg_restore ''dump_test/moodys_post-data.dump''),
                 ReadFile ''dump_test/tenant_pre-data.sql''])\<rparr>)"
proof -
  have f: "faulty_world {} = flaky_world 0"
    by (simp add: faulty_world_def flaky_world_def)
  show ?thesis
    unfolding f [symmetric]
    by (simp add: RestoreWorkflow_order workflow_eval)
qed

text \<open>
  C2. A successful \<^verbatim>\<open>DumpWorkflow\<close> has created the output directory and
  started six dumps, which write \<^verbatim>\<open>moodys_pre-data.sql\<close>, \<^verbatim>\<open>moodys_data.dump\<close>,
  \<^verbatim>\<open>moodys_post-data.dump\<close>, \<^verbatim>\<open>tenant_pre-data.sql\<close>, \<^verbatim>\<open>tenant_data.dump\<close> and
  \<^verbatim>\<open>tenant_post-data.dump\<close> directly under the output directory.
  \<^verbatim>\<open>RestoreWorkflow\<close> hands files of exactly these names, directly under the
  input directory, to its steps; in a run in which every process succeeds at
  once and the tenant schema artifact can be read and written, these are the
  files its processes, its read and its write name.
\<close>

theorem artifact_names:
  "(fst (DumpWorkflow moodysConfig tenantConfig dir w) = None \<longrightarrow>
      trace (snd (DumpWorkflow moodysConfig tenantConfig dir w)) =
        trace w @
          (let pg_dump = (\<lambda>config format s file.
                 \<lparr>name = ''pg_dump'',
                  args = [''-h'', Host config, ''-p'', Port config, ''-U'', User config,
                          ''--no-owner'', ''--no-privileges'', ''-F'' @ format,
                          ''--section='' @ s, ''-f'', dir_prefix dir @ file, DBName config],
                  env = [''PGPASSWORD='' @ Password config]\<rparr>)
           in [MkdirAll dir,
               Exec (pg_dump moodysConfig ''p'' ''pre-data'' ''moodys_pre-data.sql''),
               Exec (pg_dump moodysConfig ''c'' ''data'' ''moodys_data.dump''),
               Exec (pg_dump moodysConfig ''c'' ''post-data'' ''moodys_post-data.dump''),
               Exec (pg_dump tenantConfig ''p'' ''pre-data'' ''tenant_pre-data.sql''),
               Exec (pg_dump tenantConfig ''c'' ''data'' ''tenant_data.dump''),
               Exec (pg_dump tenantConfig ''c'' ''post-data'' ''tenant_post-data.dump'')]))
   \<and> RestoreWorkflow srcMoodysConfig srcTenantConfig destMoodysConfig destTenantConfig dir w' =
       run_plan
         [(''failed to create moodys database: '', CreateDatabase destMoodysConfig),
          (''failed to create tenant database: '', CreateDatabase destTenantConfig),
          (''failed to restore moodys pre-data: '',
             restoreDatabaseSection destMoodysConfig
               (dir_prefix dir @ ''moodys_pre-data.sql'') ''pre-data''),
          (''failed to restore moodys data: '',
             restoreDatabaseSection destMoodysConfig
               (dir_prefix dir @ ''moodys_data.dump'') ''data''),
          (''failed to restore moodys post-data: '',
             restoreDatabaseSection destMoodysConfig
               (dir_prefix dir @ ''moodys_post-data.dump'') ''post-data''),
          (''failed to modify tenant pre-data file: '',
             modifyPreDataFile (dir_prefix dir @ ''tenant_pre-data.sql'')
               srcMoodysConfig destMoodysConfig),
          (''failed to restore tenant pre-data: '',
             restoreDatabaseSection destTenantConfig
               (dir_prefix dir @ ''tenant_pre-data.sql'') ''pre-data''),
          (''failed to restore tenant data: '',
             restoreDatabaseSection destTenantConfig
               (dir_prefix dir @ ''tenant_data.dump'') ''data''),
          (''failed to restore tenant post-data: '',
             restoreDatabaseSection destTenantConfig
               (dir_prefix dir @ ''tenant_post-data.dump'') ''post-data'')] w'
   \<and> ((\<forall>n c. snd (proc w' n c) = None)
        \<and> files w' (dir_prefix dir @ ''tenant_pre-data.sql'') = Inr content
        \<and> write_err w' (dir_prefix dir @ ''tenant_pre-data.sql'') = None \<longrightarrow>
      trace (snd (RestoreWorkflow srcMoodysConfig srcTenantConfig destMoodysConfig
                    destTenantConfig dir w')) =
        trace w' @
          (let psql = (\<lambda>config more.
                 \<lparr>name = ''psql'',
                  args = [''-h'', Host config, ''-p'', Port config, ''-U'', User config] @ more,
                  env = [''PGPASSWORD='' @ Password config]\<rparr>);
               pg_restore = (\<lambda>config file.
                 \<lparr>name = ''pg_restore'',
                  args = [''-h'', Host config, ''-p'', Port config, ''-U'', User config,
                          ''-d'', DBName config, ''--no-owner'', ''--no-privileges'',
                          ''-j'', ''1'', dir_prefix dir @ file],
                  env = [''PGPASSWORD='' @ Password config]\<rparr>);
               probe = (\<lambda>config. psql config
                          [''-d'', DBName config, ''-t'',
                           ''-c'', ''SELECT COUNT(*) FROM customer_transactions;''])
           in [Exec (psql destMoodysConfig
                       [''-c'', ''CREATE DATABASE '' @ DBName destMoodysConfig @ '';'', ''postgres'']),
               Exec (psql destTenantConfig
                       [''-c'', ''CREATE DATABASE '' @ DBName destTenantConfig @ '';'', ''postgres'']),
               Exec (psql destMoodysConfig
                       [''-d'', DBName destMoodysConfig,
                        ''-f'', dir_prefix dir @ ''moodys_pre-data.sql'']),
               Exec (pg_restore destMoodysConfig ''moodys_data.dump''),
               Exec (probe destMoodysConfig),
               Exec (pg_restore destMoodysConfig ''moodys_post-data.dump''),
               ReadFile (dir_prefix dir @ ''tenant_pre-data.sql''),
               WriteFile (dir_prefix dir @ ''tenant_pre-data.sql'')
                 (rewrite_content srcMoodysConfig destMoodysConfig content),
               Exec (psql destTenantConfig
                       [''-d'', DBName destTenantConfig,
                        ''-f'', dir_prefix dir @ ''tenant_pre-data.sql'']),
               Exec (pg_restore destTenantConfig ''tenant_data.dump''),
               Exec (probe destTenantConfig),
               Exec (pg_restore destTenantConfig ''tenant_post-data.dump'')]))
   \<and> dir_prefix dir =
        (if dir = [] \<or> filepath_Clean dir = ''.'' then []
         else if filepath_Clean dir = ''/'' then ''/''
         else filepath_Clean dir @ ''/'')"
proof (intro conjI impI)
  assume ok: "fst (DumpWorkflow moodysConfig tenantConfig dir w) = None"
  show "trace (snd (DumpWorkflow moodysConfig tenantConfig dir w)) =
        trace w @
          (let pg_dump = (\<lambda>config format s file.
                 \<lparr>name = ''pg_dump'',
                  args = [''-h'', Host config, ''-p'', Port config, ''-U'', User config,
                          ''--no-owner'', ''--no-privileges'', ''-F'' @ format,
                          ''--section='' @ s, ''-f'', dir_prefix dir @ file, DBName config],
                  env = [''PGPASSWORD='' @ Password config]\<rparr>)
           in [MkdirAll dir,
               Exec (pg_dump moodysConfig ''p'' ''pre-data'' ''moodys_pre-data.sql''),
               Exec (pg_dump moodysConfig ''c'' ''data'' ''moodys_data.dump''),
               Exec (pg_dump moodysConfig ''c'' ''post-data'' ''moodys_post-data.dump''),
               Exec (pg_dump tenantConfig ''p'' ''pre-data'' ''tenant_pre-data.sql''),
               Exec (pg_dump tenantConfig ''c'' ''data'' ''tenant_data.dump''),
               Exec (pg_dump tenantConfig ''c'' ''post-data'' ''tenant_post-data.dump'')])"
    unfolding DumpWorkflow_success_trace [OF ok]
    by (simp add: dump_cmd_def Let_def)
next
  show "RestoreWorkflow srcMoodysConfig srcTenantConfig destMoodysConfig destTenantConfig dir w' =
       run_plan
         [(''failed to create moodys database: '', CreateDatabase destMoodysConfig),
          (''failed to create tenant database: '', CreateDatabase destTenantConfig),
          (''failed to restore moodys pre-data: '',
             restoreDatabaseSection destMoodysConfig
               (dir_prefix dir @ ''moodys_pre-data.sql'') ''pre-data''),
          (''failed to restore moodys data: '',
             restoreDatabaseSection destMoodysConfig
               (dir_prefix dir @ ''moodys_data.dump'') ''data''),
          (''failed to restore moodys post-data: '',
             restoreDatabaseSection destMoodysConfig
               (dir_prefix dir @ ''moodys_post-data.dump'') ''post-data''),
          (''failed to modify tenant pre-data file: '',
             modifyPreDataFile (dir_prefix dir @ ''tenant_pre-data.sql'')
               srcMoodysConfig destMoodysConfig),
          (''failed to restore tenant pre-data: '',
             restoreDatabaseSection destTenantConfig
               (dir_prefix dir @ ''tenant_pre-data.sql'') ''pre-data''),
          (''failed to restore tenant data: '',
             restoreDatabaseSection destTenantConfig
               (dir_prefix dir @ ''tenant_data.dump'') ''data''),
          (''failed to restore tenant post-data: '',
             restoreDatabaseSection destTenantConfig
               (dir_prefix dir @ ''tenant_post-data.dump'') ''post-data'')] w'"
    by (rule RestoreWorkflow_plan)
next
  assume clean: "(\<forall>n c. snd (proc w' n c) = None)
        \<and> files w' (dir_prefix dir @ ''tenant_pre-data.sql'') = Inr content
        \<and> write_err w' (dir_prefix dir @ ''tenant_pre-data.sql'') = None"
  then have ok: "\<And>n c. restore_error (proc w' n c) = None"
    by (simp add: restore_error_def)
  from clean have created: "\<And>n c. (case proc w' n c of (output, e) \<Rightarrow> e) = None"
    by (simp add: split_beta)
  show "trace (snd (RestoreWorkflow srcMoodysConfig srcTenantConfig destMoodysConfig
                    destTenantConfig dir w')) =
        trace w' @
          (let psql = (\<lambda>config more.
                 \<lparr>name = ''psql'',
                  args = [''-h'', Host config, ''-p'', Port config, ''-U'', User config] @ more,
                  env = [''PGPASSWORD='' @ Password config]\<rparr>);
               pg_restore = (\<lambda>config file.
                 \<lparr>name = ''pg_restore'',
                  args = [''-h'', Host config, ''-p'', Port config, ''-U'', User config,
                          ''-d'', DBName config, ''--no-owner'', ''--no-privileges'',
                          ''-j'', ''1'', dir_prefix dir @ file],
                  env = [''PGPASSWORD='' @ Password config]\<rparr>);
               probe = (\<lambda>config. psql config
                          [''-d'', DBName config, ''-t'',
                           ''-c'', ''SELECT COUNT(*) FROM customer_transactions;''])
           in [Exec (psql destMoodysConfig
                       [''-c'', ''CREATE DATABASE '' @ DBName destMoodysConfig @ '';'', ''postgres'']),
               Exec (psql destTenantConfig
                       [''-c'', ''CREATE DATABASE '' @ DBName destTenantConfig @ '';'', ''postgres'']),
               Exec (psql destMoodysConfig
                       [''-d'', DBName destMoodysConfig,
                        ''-f'', dir_prefix dir @ ''moodys_pre-data.sql'']),
               Exec (pg_restore destMoodysConfig ''moodys_data.dump''),
               Exec (probe destMoodysConfig),
               Exec (pg_restore destMoodysConfig ''moodys_post-data.dump''),
               ReadFile (dir_prefix dir @ ''tenant_pre-data.sql''),
               WriteFile (dir_prefix dir @ ''tenant_pre-data.sql'')
                 (rewrite_content srcMoodysConfig destMoodysConfig content),
               Exec (psql destTenantConfig
                       [''-d'', DBName destTenantConfig,
                        ''-f'', dir_prefix dir @ ''tenant_pre-data.sql'']),
               Exec (pg_restore destTenantConfig ''tenant_data.dump''),
               Exec (probe destTenantConfig),
               Exec (pg_restore destTenantConfig ''tenant_post-data.dump'')])"
    using clean
    by (simp add: RestoreWorkflow_plan CreateDatabase_def restoreDatabaseSection_def
          retry_restore_unrolled ok restore_cmd_def countCmd_def CombinedOutput_def Command_def
          modifyPreDataFile_def os_ReadFile_def os_WriteFile_def Let_def split_beta
          split: option.splits)
next
  show "dir_prefix dir =
        (if dir = [] \<or> filepath_Clean dir = ''.'' then []
         else if filepath_Clean dir = ''/'' then ''/''
         else filepath_Clean dir @ ''/'')"
    by (rule dir_prefix_def)
qed

theorem artifact_names_witness:
  "fst (DumpWorkflow test_moodys test_tenant ''dump_test'' (flaky_world 0)) = None
   \<and> trace (snd (DumpWorkflow test_moodys test_tenant ''dump_test'' (flaky_world 0))) =
       (let pg_dump = (\<lambda>db format s file.
              \<lparr>name = ''pg_dump'',
               args = [''-h'', ''localhost'', ''-p'', ''5432'', ''-U'', ''postgres'',
                       ''--no-owner'', ''--no-privileges'', ''-F'' @ format,
                       ''--section='' @ s, ''-f'', file, db],
               env = [''PGPASSWORD=your_new_password'']\<rparr>)
        in [MkdirAll ''dump_test'',
            Exec (pg_dump ''moodys'' ''p'' ''pre-data'' ''dump_test/moodys_pre-data.sql''),
            Exec (pg_dump ''moodys'' ''c'' ''data'' ''dump_test/moodys_data.dump''),
            Exec (pg_dump ''moodys'' ''c'' ''post-data'' ''dump_test/moodys_post-data.dump''),
            Exec (pg_dump ''tenant'' ''p'' ''pre-data'' ''dump_test/tenant_pre-data.sql''),
            Exec (pg_dump ''tenant'' ''c'' ''data'' ''dump_test/tenant_data.dump''),
            Exec (pg_dump ''tenant'' ''c'' ''post-data'' ''dump_test/tenant_post-data.dump'')])
   \<and> (\<forall>n c. snd (proc (artifact_world ''dump_test/tenant_pre-data.sql'' fdw_options) n c) = None)
   \<and> files (artifact_world ''dump_test/tenant_pre-data.sql'' fdw_options)
         ''dump_test/tenant_pre-data.sql'' = Inr fdw_options
   \<and> write_err (artifact_world ''dump_test/tenant_pre-data.sql'' fdw_options)
         ''dump_test/tenant_pre-data.sql'' = None
   \<and> trace (snd (RestoreWorkflow test_moodys test_tenant test_dest_moodys test_dest_tenant
                   ''dump_test'' (artifact_world ''dump_test/tenant_pre-data.sql'' fdw_options))) =
       (let psql = (\<lambda>more.
              \<lparr>name = ''psql'',
               args = [''-h'', ''localhost'', ''-p'', ''5432'', ''-U'', ''postgres''] @ more,
               env = [''PGPASSWORD=your_new_password'']\<rparr>);
            pg_restore = (\<lambda>db file.
              \<lparr>name = ''pg_restore'',
               args = [''-h'', ''localhost'', ''-p'', ''5432'', ''-U'', ''postgres'',
                       ''-d'', db, ''--no-owner'', ''--no-privileges'', ''-j'', ''1'', file],
               env = [''PGPASSWORD=your_new_password'']\<rparr>);
            probe = (\<lambda>db. psql [''-d'', db, ''-t'',
                                    ''-c'', ''SELECT COUNT(*) FROM customer_transactions;''])
        in [Exec (psql [''-c'', ''CREATE DATABASE moodys_restore_test;'', ''postgres'']),
            Exec (psql [''-c'', ''CREATE DATABASE tenant_restore_test;'', ''postgres'']),
            Exec (psql [''-d'', ''moodys_restore_test'', ''-f'', ''dump_test/moodys_pre-data.sql'']),
            Exec (pg_restore ''moodys_restore_test'' ''dump_test/moodys_data.dump''),
            Exec (probe ''moodys_restore_test''),
            Exec (pg_restore ''moodys_restore_test'' ''dump_test/moodys_post-data.dump''),
            ReadFile ''dump_test/tenant_pre-data.sql'',
            WriteFile ''dump_test/tenant_pre-data.sql''
              (''CREATE SERVER moodys_server OPTIONS (dbname 'moodys_restore_test', host 'localhost', port '5432'); ''
               @ ''CREATE USER MAPPING FOR postgres OPTIONS (password 'your_new_password', user 'postgres'); ''
               @ ''-- moodys localhost 5432 postgres your_new_password''),
            Exec (psql [''-d'', ''tenant_restore_test'', ''-f'', ''dump_test/tenant_pre-data.sql'']),
            Exec (pg_restore ''tenant_restore_test'' ''dump_test/tenant_data.dump''),
            Exec (probe ''tenant_restore_test''),
            Exec (pg_restore ''tenant_restore_test'' ''dump_test/tenant_post-data.dump'')])"
proof -
  let ?p = "''dump_test/tenant_pre-data.sql''"
  let ?W = "artifact_world ?p fdw_options"
  have d: "fst (DumpWorkflow test_moodys test_tenant ''dump_test'' (flaky_world 0)) = None"
    by (simp add: DumpWorkflow_plan dumpDatabaseSection_eq os_MkdirAll_def flaky_world_def
          Let_def)
  have clean: "(\<forall>n c. snd (proc ?W n c) = None)
        \<and> files ?W (dir_prefix ''dump_test'' @ ''tenant_pre-data.sql'') = Inr fdw_options
        \<and> write_err ?W (dir_prefix ''dump_test'' @ ''tenant_pre-data.sql'') = None"
    by (simp add: artifact_world_def flaky_world_def dir_prefix_dump_test)
  have rw: "rewrite_content test_moodys test_dest_moodys fdw_options =
      ''CREATE SERVER moodys_server OPTIONS (dbname 'moodys_restore_test', host 'localhost', port '5432'); ''
       @ ''CREATE USER MAPPING FOR postgres OPTIONS (password 'your_new_password', user 'postgres'); ''
       @ ''-- moodys localhost 5432 postgres your_new_password''"
    by (simp add: rewrite_content_def strings_Replace_replace_each option_token_not_Nil Let_def)
       (simp add: option_token_def test_moodys_def test_dest_moodys_def fdw_options_def)
  note t = artifact_names [where moodysConfig = test_moodys and tenantConfig = test_tenant
      and dir = "''dump_test''" and w = "flaky_world 0" and w' = ?W
      and srcMoodysConfig = test_moodys and srcTenantConfig = test_tenant
      and destMoodysConfig = test_dest_moodys and destTenantConfig = test_dest_tenant
      and content = fdw_options]
  from t [THEN conjunct1, rule_format, OF d]
  have a: "trace (snd (DumpWorkflow test_moodys test_tenant ''dump_test'' (flaky_world 0))) =
       (let pg_dump = (\<lambda>db format s file.
              \<lparr>name = ''pg_dump'',
               args = [''-h'', ''localhost'', ''-p'', ''5432'', ''-U'', ''postgres'',
                       ''--no-owner'', ''--no-privileges'', ''-F'' @ format,
                       ''--section='' @ s, ''-f'', file, db],
               env = [''PGPASSWORD=your_new_password'']\<rparr>)
        in [MkdirAll ''dump_test'',
            Exec (pg_dump ''moodys'' ''p'' ''pre-data'' ''dump_test/moodys_pre-data.sql''),
            Exec (pg_dump ''moodys'' ''c'' ''data'' ''dump_test/moodys_data.dump''),
            Exec (pg_dump ''moodys'' ''c'' ''post-data'' ''dump_test/moodys_post-data.dump''),
            Exec (pg_dump ''tenant'' ''p'' ''pre-data'' ''dump_test/tenant_pre-data.sql''),
            Exec (pg_dump ''tenant'' ''c'' ''data'' ''dump_test/tenant_data.dump''),
            Exec (pg_dump ''tenant'' ''c'' ''post-data'' ''dump_test/tenant_post-data.dump'')])"
    by (simp add: Let_def dir_prefix_dump_test test_moodys_def test_tenant_def flaky_world_def)
  from t [THEN conjunct2, THEN conjunct2, THEN conjunct1, rule_format, OF clean]
  have b: "trace (snd (RestoreWorkflow test_moodys test_tenant test_dest_moodys
                   test_dest_tenant ''dump_test'' ?W)) =
       (let psql = (\<lambda>more.
              \<lparr>name = ''psql'',
               args = [''-h'', ''localhost'', ''-p'', ''5432'', ''-U'', ''postgres''] @ more,
               env = [''PGPASSWORD=your_new_password'']\<rparr>);
            pg_restore = (\<lambda>db file.
              \<lparr>name = ''pg_restore'',
               args = [''-h'', ''localhost'', ''-p'', ''5432'', ''-U'', ''postgres'',
                       ''-d'', db, ''--no-owner'', ''--no-privileges'', ''-j'', ''1'', file],
               env = [''PGPASSWORD=your_new_password'']\<rparr>);
            probe = (\<lambda>db. psql [''-d'', db, ''-t'',
                                    ''-c'', ''SELECT COUNT(*) FROM customer_transactions;''])
        in [Exec (psql [''-c'', ''CREATE DATABASE moodys_restore_test;'', ''postgres'']),
            Exec (psql [''-c'', ''CREATE DATABASE tenant_restore_test;'', ''postgres'']),
            Exec (psql [''-d'', ''moodys_restore_test'', ''-f'', ''dump_test/moodys_pre-data.sql'']),
            Exec (pg_restore ''moodys_restore_test'' ''dump_test/moodys_data.dump''),
            Exec (probe ''moodys_restore_test''),
            Exec (pg_restore ''moodys_restore_test'' ''dump_test/moodys_post-data.dump''),
            ReadFile ''dump_test/tenant_pre-data.sql'',
            WriteFile ''dump_test/tenant_pre-data.sql''
              (rewrite_content test_moodys test_dest_moodys fdw_options),
            Exec (psql [''-d'', ''tenant_restore_test'', ''-f'', ''dump_test/tenant_pre-data.sql'']),
            Exec (pg_restore ''tenant_restore_test'' ''dump_test/tenant_data.dump''),
            Exec (probe ''tenant_restore_test''),
            Exec (pg_restore ''tenant_restore_test'' ''dump_test/tenant_post-data.dump'')])"
    by (simp add: Let_def dir_prefix_dump_test test_moodys_def test_tenant_def
          test_dest_moodys_def test_dest_tenant_def artifact_world_def flaky_world_def)
  from clean have c: "(\<forall>n c. snd (proc ?W n c) = None)" "files ?W ?p = Inr fdw_options"
    "write_err ?W ?p = None"
    by (simp_all add: dir_prefix_dump_test)
  from d a b c show ?thesis
    unfolding rw by simp
qed

end
